theory Spec2Isabelle
  imports Complex_Main
begin


section \<open>JavaScript strings\<close>

text \<open>
  A JavaScript string is modelled as a \<^typ>\<open>string\<close>: each \<^typ>\<open>char\<close> stands for one
  code unit below 256. The white space of \<^verbatim>\<open>String.prototype.trim\<close> and of the regular
  expression class \<^verbatim>\<open>\s\<close> in that range is TAB, LF, VT, FF, CR, SPACE and NBSP.
\<close>

definition isWhiteSpace :: "char \<Rightarrow> bool" where
  "isWhiteSpace c =
     (c \<in> set [CHR 0x09, CHR 0x0A, CHR 0x0B, CHR 0x0C, CHR 0x0D, CHR 0x20, CHR 0xA0])"

definition trim :: "string \<Rightarrow> string" where
  "trim s = rev (dropWhile isWhiteSpace (rev (dropWhile isWhiteSpace s)))"

definition startsWith :: "string \<Rightarrow> string \<Rightarrow> bool" where
  "startsWith s p = (take (length p) s = p)"

definition slice_from :: "string \<Rightarrow> nat \<Rightarrow> string" where
  "slice_from s n = drop n s"

definition isDigit :: "char \<Rightarrow> bool" where
  "isDigit c = (c \<in> set ''0123456789'')"

definition isLower :: "char \<Rightarrow> bool" where
  "isLower c = (c \<in> set ''abcdefghijklmnopqrstuvwxyz'')"

definition isUpper :: "char \<Rightarrow> bool" where
  "isUpper c = (c \<in> set ''ABCDEFGHIJKLMNOPQRSTUVWXYZ'')"

definition isAlnum :: "char \<Rightarrow> bool" where
  "isAlnum c = (isLower c \<or> isUpper c \<or> isDigit c)"

text \<open>\<^verbatim>\<open>toLowerCase\<close> on the letters A to Z; other code units below 128 are unchanged.\<close>

definition lower_char :: "char \<Rightarrow> char" where
  "lower_char c = (if isUpper c then char_of (of_char c + (32::nat)) else c)"

definition toLowerCase :: "string \<Rightarrow> string" where
  "toLowerCase s = map lower_char s"

text \<open>\<^verbatim>\<open>x || ""\<close> for a string or \<^verbatim>\<open>null\<close>\<close>

definition or_empty :: "string option \<Rightarrow> string" where
  "or_empty x = (case x of None \<Rightarrow> [] | Some s \<Rightarrow> s)"

text \<open>A string or \<^verbatim>\<open>undefined\<close> that passes \<^verbatim>\<open>if (x)\<close>: a string that is not empty.\<close>

definition nonempty :: "string option \<Rightarrow> string option" where
  "nonempty x = (case x of None \<Rightarrow> None | Some s \<Rightarrow> if s = [] then None else Some s)"

section \<open>Regular expressions\<close>

text \<open>
  The patterns of the source use literals, character classes with a repetition count,
  optional groups, alternatives and sequences. \<open>rests r s\<close> lists what is left of \<open>s\<close>
  after each way \<open>r\<close> can match at its start, the greedy choice first, as a backtracking
  matcher tries them.
\<close>

datatype regex =
    Lit string
  | LitI string
  | Cls "char \<Rightarrow> bool"
  | Rep "char \<Rightarrow> bool" nat "nat option"
  | Opt regex
  | Alt regex regex
  | Seq "regex list"
  | Never

fun rests :: "regex \<Rightarrow> string \<Rightarrow> string list"
and rests_seq :: "regex list \<Rightarrow> string \<Rightarrow> string list" where
  "rests (Lit l) s = (if startsWith s l then [drop (length l) s] else [])"
| "rests (LitI l) s =
     (if toLowerCase (take (length l) s) = toLowerCase l then [drop (length l) s] else [])"
| "rests (Cls P) s = (case s of [] \<Rightarrow> [] | c # cs \<Rightarrow> if P c then [cs] else [])"
| "rests (Rep P lo hi) s =
     (let n = length (takeWhile P s);
          m = (case hi of None \<Rightarrow> n | Some h \<Rightarrow> min n h)
      in map (\<lambda>k. drop k s) (rev [lo..<Suc m]))"
| "rests (Opt r) s = rests r s @ [s]"
| "rests (Alt r1 r2) s = rests r1 s @ rests r2 s"
| "rests (Seq rs) s = rests_seq rs s"
| "rests Never s = []"
| "rests_seq [] s = [s]"
| "rests_seq (r # rs) s = concat (map (rests_seq rs) (rests r s))"

text \<open>\<^verbatim>\<open>/^r$/.test(s)\<close>: some way of matching \<open>r\<close> at the start uses up all of \<open>s\<close>.\<close>

definition test_full :: "regex \<Rightarrow> string \<Rightarrow> bool" where
  "test_full r s = ([] \<in> set (rests r s))"

text \<open>\<^verbatim>\<open>/^r/.test(s)\<close>: \<open>r\<close> matches at the start of \<open>s\<close>.\<close>

definition test_prefix :: "regex \<Rightarrow> string \<Rightarrow> bool" where
  "test_prefix r s = (rests r s \<noteq> [])"

text \<open>
  \<^verbatim>\<open>s.match(/r/)\<close> without flags: the match at the leftmost position where \<open>r\<close> matches,
  the first alternative the matcher finds there; \<open>None\<close> is \<^verbatim>\<open>null\<close>.
\<close>

fun match_first :: "regex \<Rightarrow> string \<Rightarrow> string option" where
  "match_first r [] = (case rests r [] of [] \<Rightarrow> None | t # _ \<Rightarrow> Some [])"
| "match_first r (c # cs) =
     (case rests r (c # cs) of
        [] \<Rightarrow> match_first r cs
      | t # _ \<Rightarrow> Some (take (length (c # cs) - length t) (c # cs)))"

section \<open>Identifier classifier (index.ts)\<close>

datatype IdentifierType = URL | DOI | PMCID | PMID | ISBN | undefined_type

definition identifierPrefixes :: "(string \<times> IdentifierType) list" where
  "identifierPrefixes =
     [(''url:'', URL), (''doi:'', DOI), (''pmcid:'', PMCID), (''pmid:'', PMID), (''isbn:'', ISBN)]"

definition doi_char :: "char \<Rightarrow> bool" where
  "doi_char c = (c \<in> set ''-._;()/:'' \<or> isAlnum c)"

definition url_char :: "char \<Rightarrow> bool" where
  "url_char c = (isAlnum c \<or> c \<in> set ''-._~:/?#[]@!$&()*+,;='' \<or> c = CHR 0x27)"

text \<open>\<^verbatim>\<open>/^((https?:\/\/)?(?:dx\.)?doi\.org\/)?10\.\d{4,9}\/[-._;()/:a-zA-Z0-9]+$/\<close>\<close>

definition DOI_pattern :: regex where
  "DOI_pattern =
     Seq [Opt (Seq [Opt (Seq [Lit ''http'', Opt (Lit ''s''), Lit ''://'']),
                    Opt (Lit ''dx.''), Lit ''doi.org/'']),
          Lit ''10.'', Rep isDigit 4 (Some 9), Lit ''/'', Rep doi_char 1 None]"

text \<open>\<^verbatim>\<open>/^(https?:\/\/)[a-zA-Z0-9-._~:/?#[\]@!$&'()*+,;=]+$/\<close>\<close>

definition URL_pattern :: regex where
  "URL_pattern = Seq [Seq [Lit ''http'', Opt (Lit ''s''), Lit ''://''], Rep url_char 1 None]"

text \<open>\<^verbatim>\<open>/^PMC\d+$/\<close>, \<^verbatim>\<open>/^\d{7,10}$/\<close>, \<^verbatim>\<open>/^(97[89])\d{9}(\d|X)$/\<close>\<close>

definition PMCID_pattern :: regex where
  "PMCID_pattern = Seq [Lit ''PMC'', Rep isDigit 1 None]"

definition PMID_pattern :: regex where
  "PMID_pattern = Rep isDigit 7 (Some 10)"

definition ISBN_pattern :: regex where
  "ISBN_pattern =
     Seq [Seq [Lit ''97'', Cls (\<lambda>c. c \<in> set ''89'')], Rep isDigit 9 (Some 9),
          Alt (Cls isDigit) (Lit ''X'')]"

text \<open>
  \<^verbatim>\<open>/.^/\<close> asks for the start of the input after one character, so it matches nothing.
\<close>

definition undefined_pattern :: regex where
  "undefined_pattern = Never"

definition patterns :: "(IdentifierType \<times> regex) list" where
  "patterns =
     [(DOI, DOI_pattern), (URL, URL_pattern), (PMCID, PMCID_pattern), (PMID, PMID_pattern),
      (ISBN, ISBN_pattern), (undefined_type, undefined_pattern)]"

text \<open>\<^verbatim>\<open>trimmed.replace(/-/g, "")\<close>\<close>

definition strip_hyphens :: "string \<Rightarrow> string" where
  "strip_hyphens s = filter (\<lambda>c. c \<noteq> CHR ''-'') s"

text \<open>
  The two \<^verbatim>\<open>for ... of Object.entries(...)\<close> loops return at the first entry whose test
  succeeds; the keys are not integer-like, so the entries come in the order written.
\<close>

definition recognizeIdentifierType :: "string \<Rightarrow> IdentifierType \<times> string" where
  "recognizeIdentifierType input =
     (let trimmed = trim input in
      case find (\<lambda>(prefix, ty). startsWith trimmed prefix) identifierPrefixes of
        Some (prefix, ty) \<Rightarrow> (ty, trim (slice_from trimmed (length prefix)))
      | None \<Rightarrow>
          (let cleaned = strip_hyphens trimmed in
           case find (\<lambda>(ty, pattern). test_full pattern cleaned) patterns of
             Some (ty, pattern) \<Rightarrow> (ty, trimmed)
           | None \<Rightarrow> (undefined_type, trimmed)))"


section \<open>Terminal output (common.ts)\<close>

definition ESC :: char where
  "ESC = CHR 0x1B"

definition FONT_BOLD :: string where "FONT_BOLD = ESC # ''[1m''"
definition FONT_GREEN :: string where "FONT_GREEN = ESC # ''[38;5;48m''"
definition FONT_YELLOW :: string where "FONT_YELLOW = ESC # ''[38;5;228m''"
definition FONT_RED :: string where "FONT_RED = ESC # ''[38;5;197m''"
definition FONT_GRAY :: string where "FONT_GRAY = ESC # ''[38;5;249m''"
definition FONT_BLACK :: string where "FONT_BLACK = ESC # ''[38;5;0m''"
definition FONT_BG_GREEN :: string where "FONT_BG_GREEN = ESC # ''[48;5;48m''"
definition FONT_BG_RED :: string where "FONT_BG_RED = ESC # ''[48;5;9m''"
definition FONT_RESET :: string where "FONT_RESET = ESC # ''[0m''"

definition RESULT_SUCCESS :: string where
  "RESULT_SUCCESS = FONT_BG_GREEN @ FONT_BOLD @ FONT_BLACK @ '' SUCCESS '' @ FONT_RESET"

definition RESULT_ERROR :: string where
  "RESULT_ERROR = FONT_BG_RED @ FONT_BOLD @ FONT_BLACK @ '' ERROR '' @ FONT_RESET"

definition LF :: char where
  "LF = CHR 0x0A"

definition CR :: char where
  "CR = CHR 0x0D"


section \<open>JavaScript values\<close>

text \<open>
  The values a parsed JSON text can hold, with \<^verbatim>\<open>undefined\<close> and \<^verbatim>\<open>NaN\<close> for what the
  code itself produces. A number is \<^verbatim>\<open>NaN\<close>, an infinity (what \<^verbatim>\<open>JSON.parse\<close> makes of a
  literal too large for a double) or finite; the finite numbers of JavaScript are among
  the reals, and \<^verbatim>\<open>-0\<close> is not told apart from \<^verbatim>\<open>0\<close> (the code compares numbers with 0,
  tests them for truth and prints them, and the two agree in all three). An object is the
  list of its own properties, each key once.
\<close>

datatype jsval =
    Undefined
  | Null
  | Bool bool
  | NaN
  | PosInfinity
  | NegInfinity
  | Num real
  | Str string
  | Arr "jsval list"
  | Obj "(string \<times> jsval) list"

text \<open>
  What the code can throw: a \<^verbatim>\<open>TypeError\<close> of the language, the errors the adapters and
  the renderer construct themselves (\<^verbatim>\<open>Unable to retrieve data for ...\<close>,
  \<^verbatim>\<open>Failed to retrieve style\<close>, \<^verbatim>\<open>Failed to retrieve locale\<close>), and whatever a library call
  throws (a rejected \<^verbatim>\<open>fetch\<close>, the \<^verbatim>\<open>SyntaxError\<close> of \<^verbatim>\<open>response.json()\<close>, an error of
  the citation processor), with its message.
\<close>

datatype js_error =
    TypeError
  | UnableToRetrieve IdentifierType jsval
  | FailedToRetrieveStyle string
  | FailedToRetrieveLocale string
  | Thrown string

fun truthy :: "jsval \<Rightarrow> bool" where
  "truthy Undefined = False"
| "truthy Null = False"
| "truthy (Bool b) = b"
| "truthy NaN = False"
| "truthy PosInfinity = True"
| "truthy NegInfinity = True"
| "truthy (Num n) = (n \<noteq> 0)"
| "truthy (Str s) = (s \<noteq> [])"
| "truthy (Arr xs) = True"
| "truthy (Obj kvs) = True"

definition nullish :: "jsval \<Rightarrow> bool" where
  "nullish v = (v = Undefined \<or> v = Null)"

text \<open>\<^verbatim>\<open>a || b\<close>\<close>

definition js_or :: "jsval \<Rightarrow> jsval \<Rightarrow> jsval" where
  "js_or a b = (if truthy a then a else b)"

text \<open>The decimal digits of a natural number.\<close>

fun string_of_nat :: "nat \<Rightarrow> string" where
  "string_of_nat n =
     (if n < 10 then [''0123456789'' ! n]
      else string_of_nat (n div 10) @ [''0123456789'' ! (n mod 10)])"

declare string_of_nat.simps [simp del]

text \<open>
  The string a template literal \<^verbatim>\<open>`${v}`\<close> puts in for \<open>v\<close>; \<open>join_array print sep xs\<close>
  is \<^verbatim>\<open>xs.join(sep)\<close>, where \<^verbatim>\<open>null\<close> and \<^verbatim>\<open>undefined\<close> elements give the empty string.
  How JavaScript prints a finite number (plain digits, a fraction, exponent form from
  \<^verbatim>\<open>1e21\<close> on) is not modelled: \<open>print\<close> stands for it, and every property below holds
  whatever it is.
\<close>

fun toString :: "(real \<Rightarrow> string) \<Rightarrow> jsval \<Rightarrow> string"
and join_array :: "(real \<Rightarrow> string) \<Rightarrow> string \<Rightarrow> jsval list \<Rightarrow> string" where
  "toString print Undefined = ''undefined''"
| "toString print Null = ''null''"
| "toString print (Bool b) = (if b then ''true'' else ''false'')"
| "toString print NaN = ''NaN''"
| "toString print PosInfinity = ''Infinity''"
| "toString print NegInfinity = ''-Infinity''"
| "toString print (Num n) = print n"
| "toString print (Str s) = s"
| "toString print (Arr xs) = join_array print '','' xs"
| "toString print (Obj kvs) = ''[object Object]''"
| "join_array print sep [] = []"
| "join_array print sep (x # xs) =
     (if x = Undefined \<or> x = Null then [] else toString print x)
     @ (if xs = [] then [] else sep @ join_array print sep xs)"

text \<open>
  \<open>field v k\<close> is the own property \<open>k\<close> of \<open>v\<close>, \<^verbatim>\<open>undefined\<close> when there is none. The keys
  the code reads are names of bibliographic fields, none of them a property that strings,
  arrays or objects inherit, so a value that is not an object has none of them.
  \<open>get_prop v k\<close> is \<^verbatim>\<open>v.k\<close>, which throws on \<^verbatim>\<open>null\<close> and \<^verbatim>\<open>undefined\<close>; \<open>opt_prop v k\<close> is
  \<^verbatim>\<open>v?.k\<close>.
\<close>

fun field :: "jsval \<Rightarrow> string \<Rightarrow> jsval" where
  "field (Obj kvs) k = (case map_of kvs k of None \<Rightarrow> Undefined | Some v \<Rightarrow> v)"
| "field v k = Undefined"

definition get_prop :: "jsval \<Rightarrow> string \<Rightarrow> js_error + jsval" where
  "get_prop v k = (if nullish v then Inl TypeError else Inr (field v k))"

definition opt_prop :: "jsval \<Rightarrow> string \<Rightarrow> jsval" where
  "opt_prop v k = (if nullish v then Undefined else field v k)"

text \<open>
  The element \<open>v[i]\<close> of an array, the \<open>i\<close>-th code unit of a string, the property
  named by the digits of \<open>i\<close> of an object. The code asks for the elements 0 and 1 only.
\<close>

fun element :: "jsval \<Rightarrow> nat \<Rightarrow> jsval" where
  "element (Arr xs) i = (if i < length xs then xs ! i else Undefined)"
| "element (Str s) i = (if i < length s then Str [s ! i] else Undefined)"
| "element (Obj kvs) i = field (Obj kvs) (string_of_nat i)"
| "element v i = Undefined"

definition at_index :: "jsval \<Rightarrow> nat \<Rightarrow> js_error + jsval" where
  "at_index v i = (if nullish v then Inl TypeError else Inr (element v i))"

definition opt_at :: "jsval \<Rightarrow> nat \<Rightarrow> jsval" where
  "opt_at v i = (if nullish v then Undefined else element v i)"

text \<open>
  \<^verbatim>\<open>k in v\<close> throws unless \<open>v\<close> is an object (an array is one). The only key the code
  asks for is \<^verbatim>\<open>status\<close>, which no array has.
\<close>

fun js_in :: "string \<Rightarrow> jsval \<Rightarrow> js_error + bool" where
  "js_in k (Obj kvs) = Inr (k \<in> fst ` set kvs)"
| "js_in k (Arr xs) = Inr False"
| "js_in k v = Inl TypeError"

section \<open>Dates\<close>

text \<open>
  A \<^verbatim>\<open>Date\<close> object: its year, month (0 to 11) and day of the month in local time, or
  the invalid date, whose getters all return \<^verbatim>\<open>NaN\<close>.
\<close>

datatype js_date = Date int nat nat | InvalidDate

fun getFullYear :: "js_date \<Rightarrow> jsval" where
  "getFullYear (Date y m d) = Num (of_int y)"
| "getFullYear InvalidDate = NaN"

fun getMonth :: "js_date \<Rightarrow> jsval" where
  "getMonth (Date y m d) = Num (of_nat m)"
| "getMonth InvalidDate = NaN"

fun getDate :: "js_date \<Rightarrow> jsval" where
  "getDate (Date y m d) = Num (of_nat d)"
| "getDate InvalidDate = NaN"

text \<open>\<^verbatim>\<open>n + 1\<close> for a number \<open>n\<close>, as a getter of a \<^verbatim>\<open>Date\<close> returns it.\<close>

fun plus_one :: "jsval \<Rightarrow> jsval" where
  "plus_one (Num n) = Num (n + 1)"
| "plus_one PosInfinity = PosInfinity"
| "plus_one NegInfinity = NegInfinity"
| "plus_one v = NaN"

section \<open>Citation records (types.ts)\<close>

text \<open>
  A \<^verbatim>\<open>CSLJson\<close> object, with the fields the adapters write. A field that an object
  literal gives as \<^verbatim>\<open>undefined\<close> and a field it does not mention are both \<open>Undefined\<close>.
  The values taken over from an upstream answer are whatever that answer holds.
\<close>

record CSLJson =
  csl_id :: string
  csl_DOI :: jsval
  csl_URL :: jsval
  csl_ISSN :: jsval
  csl_ISBN :: jsval
  csl_container_title :: jsval
  csl_issue :: jsval
  csl_issued :: jsval
  csl_page :: jsval
  csl_number_of_pages :: jsval
  csl_publisher :: jsval
  csl_publisher_place :: jsval
  csl_source :: jsval
  csl_title :: jsval
  csl_volume :: jsval
  csl_type :: jsval
  csl_accessed :: jsval
  csl_author :: jsval

text \<open>
  A \<^verbatim>\<open>FailedCSLJson\<close> object. The identifier is a value: \<^verbatim>\<open>fromPMID\<close> and \<^verbatim>\<open>fromPMCID\<close>
  pass the DOI of the upstream answer on to \<^verbatim>\<open>fromDOI\<close> as it is.
\<close>

record FailedCSLJson =
  failed_id :: string
  failed_identifier :: jsval
  failed_type :: IdentifierType
  status :: string

datatype CSLJsonResponse = Csl CSLJson | Failed FailedCSLJson

section \<open>The world outside (fetch, jsdom, Date, crypto)\<close>

text \<open>
  A \<^verbatim>\<open>Response\<close>: its status, and what \<^verbatim>\<open>response.json()\<close> and \<^verbatim>\<open>response.text()\<close>
  resolve to or reject with.
\<close>

record http_response =
  http_status :: nat
  response_json :: "js_error + jsval"
  response_text :: "js_error + string"

text \<open>An element of a parsed page: \<^verbatim>\<open>getAttribute\<close> (\<open>None\<close> is \<^verbatim>\<open>null\<close>) and \<^verbatim>\<open>textContent\<close>.\<close>

record dom_element =
  getAttribute :: "string \<Rightarrow> string option"
  textContent :: "string option"

record document =
  querySelector :: "string \<Rightarrow> dom_element option"
  querySelectorAll :: "string \<Rightarrow> dom_element list"

text \<open>
  The environment of one call: what \<^verbatim>\<open>fetch\<close> answers for a request URL (\<open>Inl\<close>: the
  promise is rejected), the document \<^verbatim>\<open>new JSDOM(text)\<close> builds, the date
  \<^verbatim>\<open>new Date(v)\<close> gives for a value, the date \<^verbatim>\<open>new Date()\<close> of the moment, the bytes
  of \<^verbatim>\<open>crypto.randomBytes\<close> (\<open>randomBytes n i\<close> is byte \<open>i\<close> of its \<open>n\<close>-th call), and the
  text JavaScript prints for a finite number.
\<close>

record env =
  fetch :: "string \<Rightarrow> js_error + http_response"
  JSDOM :: "string \<Rightarrow> js_error + document"
  new_Date :: "jsval \<Rightarrow> js_date"
  now :: js_date
  randomBytes :: "nat \<Rightarrow> nat \<Rightarrow> nat"
  number_text :: "real \<Rightarrow> string"

text \<open>
  The state of a \<^verbatim>\<open>CSLJsonParser\<close> and of its process: the record store \<^verbatim>\<open>this.cslJson\<close>,
  the option \<^verbatim>\<open>logErrors\<close>, the errors written to \<^verbatim>\<open>process.stderr\<close> (the text that
  \<^verbatim>\<open>errorTemplate\<close> makes of an error is left out) and the number of calls of
  \<^verbatim>\<open>crypto.randomBytes\<close> so far.
\<close>

record parser_state =
  cslJson :: "CSLJson list"
  logErrors :: bool
  logged :: "js_error list"
  random_calls :: nat

section \<open>Unique identifiers (common.ts)\<close>

definition uid_chars :: string where
  "uid_chars = ''abcdefghijklmnopqrstuvwxyzABCDEFGHIJKLMNOPQRSTUVWXYZ0123456789_''"

text \<open>\<^verbatim>\<open>uid()\<close> with its default length 16; a byte is a number below 256.\<close>

definition uid :: "env \<Rightarrow> parser_state \<Rightarrow> string \<times> parser_state" where
  "uid e st =
     (map (\<lambda>i. uid_chars ! ((randomBytes e (random_calls st) i mod 256) mod length uid_chars))
          [0..<16],
      st\<lparr>random_calls := Suc (random_calls st)\<rparr>)"

section \<open>CSLJsonParser\<close>

definition CORS_PROXY :: string where
  "CORS_PROXY = ''https://corsproxy.io/?''"

text \<open>The request URLs of the four upstream services.\<close>

definition crossref_url :: "string \<Rightarrow> string" where
  "crossref_url doi = CORS_PROXY @ ''https://api.crossref.org/works/'' @ doi"

definition openlibrary_url :: "string \<Rightarrow> string" where
  "openlibrary_url isbn =
     ''https://openlibrary.org/search.json?q=isbn:'' @ isbn @ ''&mode=everything&fields=*,editions''"

definition pmc_url :: "string \<Rightarrow> string" where
  "pmc_url pmcIdWithoutPrefix =
     CORS_PROXY @ ''https://api.ncbi.nlm.nih.gov/lit/ctxp/v1/pmc/?format=csl&id='' @ pmcIdWithoutPrefix"

definition pubmed_url :: "string \<Rightarrow> string" where
  "pubmed_url pmid =
     CORS_PROXY @ ''https://api.ncbi.nlm.nih.gov/lit/ctxp/v1/pubmed/?format=csl&id='' @ pmid"

subsection \<open>createAuthorsArray\<close>

text \<open>\<^verbatim>\<open>author.split(/\s+/)\<close>: the pieces between the runs of white space.\<close>

function split_ws :: "string \<Rightarrow> string list" where
  "split_ws s =
     (let name = takeWhile (\<lambda>c. \<not> isWhiteSpace c) s;
          rest = dropWhile (\<lambda>c. \<not> isWhiteSpace c) s
      in if rest = [] then [name] else name # split_ws (dropWhile isWhiteSpace rest))"
  by pat_completeness auto
termination
proof (relation "measure length")
  fix s name rest
  assume rest: "rest = dropWhile (\<lambda>c. \<not> isWhiteSpace c) s" and "rest \<noteq> []"
  have "length (dropWhile isWhiteSpace rest) \<le> length rest"
    by (rule length_dropWhile_le)
  moreover have "isWhiteSpace (hd rest)"
    using \<open>rest \<noteq> []\<close> hd_dropWhile [of "\<lambda>c. \<not> isWhiteSpace c" s] by (simp add: rest)
  then have "dropWhile isWhiteSpace rest = dropWhile isWhiteSpace (tl rest)"
    using \<open>rest \<noteq> []\<close> by (cases rest) simp_all
  then have "length (dropWhile isWhiteSpace rest) < length rest"
    using \<open>rest \<noteq> []\<close> length_dropWhile_le [of isWhiteSpace "tl rest"] by (cases rest) simp_all
  moreover have "length rest \<le> length s"
    by (simp add: rest length_dropWhile_le)
  ultimately show "(dropWhile isWhiteSpace rest, s) \<in> measure length"
    by simp
qed simp

declare split_ws.simps [simp del]

text \<open>\<^verbatim>\<open>names.join(" ")\<close> for a list of strings\<close>

fun join_strings :: "string \<Rightarrow> string list \<Rightarrow> string" where
  "join_strings sep [] = []"
| "join_strings sep [x] = x"
| "join_strings sep (x # y # ys) = x @ sep @ join_strings sep (y # ys)"

text \<open>
  One author: \<^verbatim>\<open>names.shift() || ""\<close> is the first piece, the rest joined by a space is the
  family name. \<^verbatim>\<open>author.split\<close> is a function only when the author is a string.
\<close>

definition createAuthor :: "jsval \<Rightarrow> js_error + jsval" where
  "createAuthor author =
     (case author of
        Str s \<Rightarrow>
          (let (given, names) =
                 (case split_ws s of
                    [] \<Rightarrow> ([], [])
                  | first # names \<Rightarrow> (if first \<noteq> [] then first else [], names));
               family = join_strings '' '' names
           in Inr (Obj [(''given'', Str given), (''family'', Str family)]))
      | _ \<Rightarrow> Inl TypeError)"

fun map_throwing :: "('a \<Rightarrow> js_error + 'b) \<Rightarrow> 'a list \<Rightarrow> js_error + 'b list" where
  "map_throwing f [] = Inr []"
| "map_throwing f (x # xs) =
     (case f x of
        Inl e \<Rightarrow> Inl e
      | Inr y \<Rightarrow> (case map_throwing f xs of Inl e \<Rightarrow> Inl e | Inr ys \<Rightarrow> Inr (y # ys)))"

text \<open>\<^verbatim>\<open>authors.map\<close> is a function only when \<open>authors\<close> is an array.\<close>

definition createAuthorsArray :: "jsval \<Rightarrow> js_error + jsval" where
  "createAuthorsArray authors =
     (case authors of
        Arr xs \<Rightarrow> (case map_throwing createAuthor xs of Inl e \<Rightarrow> Inl e | Inr ys \<Rightarrow> Inr (Arr ys))
      | _ \<Rightarrow> Inl TypeError)"

subsection \<open>createDateObject\<close>

text \<open>The first argument is a \<^verbatim>\<open>Date\<close> (\<open>Inr\<close>) or a year (\<open>Inl\<close>).\<close>

definition createDateObject :: "jsval + js_date \<Rightarrow> jsval \<Rightarrow> jsval \<Rightarrow> jsval" where
  "createDateObject yearOrDate month day =
     (let (year, adjustedMonth, adjustedDay) =
            (case yearOrDate of
               Inr date \<Rightarrow> (getFullYear date, plus_one (getMonth date), getDate date)
             | Inl y \<Rightarrow> (y, month, day));
          dateParts = [year]
            @ (if truthy adjustedMonth then [adjustedMonth] else [])
            @ (if truthy adjustedDay then [adjustedDay] else [])
      in Obj [(''date-parts'', Arr [Arr dateParts])])"

subsection \<open>The catch block of every adapter\<close>

definition catch_failed ::
  "env \<Rightarrow> IdentifierType \<Rightarrow> jsval \<Rightarrow> js_error \<Rightarrow> parser_state \<Rightarrow> CSLJsonResponse \<times> parser_state" where
  "catch_failed e ty ident error st =
     (let st1 = (if logErrors st then st\<lparr>logged := logged st @ [error]\<rparr> else st);
          (i, st2) = uid e st1
      in (Failed \<lparr>failed_id = i, failed_identifier = ident, failed_type = ty, status = ''failed''\<rparr>, st2))"

subsection \<open>fromDOI\<close>

text \<open>
  The object literal of \<^verbatim>\<open>fromDOI\<close>, after \<^verbatim>\<open>id: uid()\<close>: reading a property of
  \<open>message\<close> throws when the message is \<^verbatim>\<open>null\<close> or \<^verbatim>\<open>undefined\<close>, and so does the
  element 0 of a container title or title that is.
\<close>

definition fromDOI_object :: "env \<Rightarrow> string \<Rightarrow> jsval \<Rightarrow> js_error + CSLJson" where
  "fromDOI_object e i message =
     (if nullish message then Inl TypeError
      else
        case at_index (field message ''container-title'') 0 of
          Inl err \<Rightarrow> Inl err
        | Inr container_title \<Rightarrow>
            (case at_index (field message ''title'') 0 of
               Inl err \<Rightarrow> Inl err
             | Inr title \<Rightarrow>
                 Inr \<lparr>csl_id = i,
                      csl_DOI = field message ''DOI'',
                      csl_URL = js_or (field message ''URL'')
                        (if truthy (field message ''DOI'')
                         then Str (''https://doi.org/'' @ toString (number_text e) (field message ''DOI''))
                         else Undefined),
                      csl_ISSN = field message ''ISSN'',
                      csl_ISBN = Undefined,
                      csl_container_title = container_title,
                      csl_issue = field message ''issue'',
                      csl_issued = field message ''issued'',
                      csl_page = field message ''page'',
                      csl_number_of_pages = Undefined,
                      csl_publisher = field message ''publisher'',
                      csl_publisher_place = field message ''publisher-place'',
                      csl_source = field message ''source'',
                      csl_title = title,
                      csl_volume = field message ''volume'',
                      csl_type = field message ''type'',
                      csl_accessed = createDateObject (Inr (now e)) Undefined Undefined,
                      csl_author = field message ''author''\<rparr>))"

text \<open>
  The \<^verbatim>\<open>try\<close> block: \<open>Inl\<close> is what it throws. The state comes back in both cases, since
  \<^verbatim>\<open>uid()\<close> has already run when the rest of the object literal throws.
\<close>

definition fromDOI_try ::
  "env \<Rightarrow> jsval \<Rightarrow> parser_state \<Rightarrow> (js_error + CSLJsonResponse) \<times> parser_state" where
  "fromDOI_try e doi st =
     (case fetch e (crossref_url (toString (number_text e) doi)) of
        Inl err \<Rightarrow> (Inl err, st)
      | Inr response \<Rightarrow>
          if http_status response = 404 then (Inl (UnableToRetrieve DOI doi), st)
          else
            (case response_json response of
               Inl err \<Rightarrow> (Inl err, st)
             | Inr data \<Rightarrow>
                 (case get_prop data ''message'' of
                    Inl err \<Rightarrow> (Inl err, st)
                  | Inr message \<Rightarrow>
                      (let (i, st1) = uid e st in
                       case fromDOI_object e i message of
                         Inl err \<Rightarrow> (Inl err, st1)
                       | Inr newCslJsonObject \<Rightarrow>
                           (Inr (Csl newCslJsonObject),
                            st1\<lparr>cslJson := cslJson st1 @ [newCslJsonObject]\<rparr>)))))"

definition fromDOI :: "env \<Rightarrow> jsval \<Rightarrow> parser_state \<Rightarrow> CSLJsonResponse \<times> parser_state" where
  "fromDOI e doi st =
     (case fromDOI_try e doi st of
        (Inr result, st') \<Rightarrow> (result, st')
      | (Inl error, st') \<Rightarrow> catch_failed e DOI doi error st')"

subsection \<open>fromISBN\<close>

text \<open>\<^verbatim>\<open>docs?.editions?.docs[0]\<close>: the last two steps are not optional.\<close>

definition first_edition :: "jsval \<Rightarrow> js_error + jsval" where
  "first_edition docs =
     (if nullish docs then Inr Undefined
      else if nullish (field docs ''editions'') then Inr Undefined
      else at_index (field (field docs ''editions'') ''docs'') 0)"

definition fromISBN_try ::
  "env \<Rightarrow> string \<Rightarrow> parser_state \<Rightarrow> (js_error + CSLJsonResponse) \<times> parser_state" where
  "fromISBN_try e isbn st =
     (case fetch e (openlibrary_url isbn) of
        Inl err \<Rightarrow> (Inl err, st)
      | Inr response \<Rightarrow>
          (case response_json response of
             Inl err \<Rightarrow> (Inl err, st)
           | Inr data \<Rightarrow>
               (case get_prop data ''numFound'' of
                  Inl err \<Rightarrow> (Inl err, st)
                | Inr numFound \<Rightarrow>
                    if numFound = Num 0 then (Inl (UnableToRetrieve ISBN (Str isbn)), st)
                    else
                      (case at_index (field data ''docs'') 0 of
                         Inl err \<Rightarrow> (Inl err, st)
                       | Inr docs \<Rightarrow>
                           (case first_edition docs of
                              Inl err \<Rightarrow> (Inl err, st)
                            | Inr edition \<Rightarrow>
                                (let publish_date0 = opt_at (opt_prop edition ''publish_date'') 0;
                                     publishDate =
                                       (if truthy publish_date0 then Some (new_Date e publish_date0)
                                        else None);
                                     (i, st1) = uid e st
                                 in case createAuthorsArray (opt_prop docs ''author_name'') of
                                      Inl err \<Rightarrow> (Inl err, st1)
                                    | Inr author \<Rightarrow>
                                        (let newCslJsonObject =
                                           \<lparr>csl_id = i,
                                            csl_DOI = Undefined,
                                            csl_URL = Undefined,
                                            csl_ISSN = Undefined,
                                            csl_ISBN = js_or (opt_at (opt_prop edition ''isbn'') 0) (Str isbn),
                                            csl_container_title = Undefined,
                                            csl_issue = Undefined,
                                            csl_issued =
                                              (case publishDate of
                                                 Some date \<Rightarrow> createDateObject (Inr date) Undefined Undefined
                                               | None \<Rightarrow> Undefined),
                                            csl_page = Undefined,
                                            csl_number_of_pages = opt_prop docs ''number_of_pages_median'',
                                            csl_publisher = opt_at (opt_prop edition ''publisher'') 0,
                                            csl_publisher_place = opt_at (opt_prop edition ''publish_place'') 0,
                                            csl_source = Undefined,
                                            csl_title = opt_prop docs ''title'',
                                            csl_volume = Undefined,
                                            csl_type = Str ''book'',
                                            csl_accessed = createDateObject (Inr (now e)) Undefined Undefined,
                                            csl_author = author\<rparr>
                                         in (Inr (Csl newCslJsonObject),
                                             st1\<lparr>cslJson := cslJson st1 @ [newCslJsonObject]\<rparr>))))))))"

definition fromISBN :: "env \<Rightarrow> string \<Rightarrow> parser_state \<Rightarrow> CSLJsonResponse \<times> parser_state" where
  "fromISBN e isbn st =
     (case fromISBN_try e isbn st of
        (Inr result, st') \<Rightarrow> (result, st')
      | (Inl error, st') \<Rightarrow> catch_failed e ISBN (Str isbn) error st')"

subsection \<open>fromPMCID and fromPMID\<close>

text \<open>
  The record both adapters build when the answer carries no DOI; every read is
  \<^verbatim>\<open>data?.field\<close>.
\<close>

definition pubmed_object :: "env \<Rightarrow> string \<Rightarrow> jsval \<Rightarrow> CSLJson" where
  "pubmed_object e i data =
     \<lparr>csl_id = i,
      csl_DOI = Undefined,
      csl_URL = opt_prop data ''URL'',
      csl_ISSN = opt_prop data ''ISSN'',
      csl_ISBN = Undefined,
      csl_container_title = opt_prop data ''container-title'',
      csl_issue = opt_prop data ''issue'',
      csl_issued = opt_prop data ''issued'',
      csl_page = opt_prop data ''page'',
      csl_number_of_pages = Undefined,
      csl_publisher = Undefined,
      csl_publisher_place = opt_prop data ''publisher-place'',
      csl_source = opt_prop data ''source'',
      csl_title = opt_prop data ''title'',
      csl_volume = opt_prop data ''volume'',
      csl_type = opt_prop data ''type'',
      csl_accessed = createDateObject (Inr (now e)) Undefined Undefined,
      csl_author = opt_prop data ''author''\<rparr>"

text \<open>
  What follows \<^verbatim>\<open>const data = await response.json()\<close> in both adapters, for the
  identifier type \<open>ty\<close> and the identifier \<open>ident\<close> of the adapter.
\<close>

definition pubmed_data ::
  "env \<Rightarrow> IdentifierType \<Rightarrow> string \<Rightarrow> jsval \<Rightarrow> parser_state
    \<Rightarrow> (js_error + CSLJsonResponse) \<times> parser_state" where
  "pubmed_data e ty ident data st =
     (case js_in ''status'' data of
        Inl err \<Rightarrow> (Inl err, st)
      | Inr has_status \<Rightarrow>
          if has_status \<and> field data ''status'' = Str ''error''
          then (Inl (UnableToRetrieve ty (Str ident)), st)
          else if truthy (opt_prop data ''DOI'') then
            (let (newCslJsonObject, st') = fromDOI e (opt_prop data ''DOI'') st
             in (Inr newCslJsonObject, st'))
          else
            (let (i, st1) = uid e st;
                 newCslJsonObject = pubmed_object e i data
             in (Inr (Csl newCslJsonObject), st1\<lparr>cslJson := cslJson st1 @ [newCslJsonObject]\<rparr>)))"

text \<open>\<^verbatim>\<open>pmcid.replace(/^PMC/, "")\<close>\<close>

definition strip_PMC :: "string \<Rightarrow> string" where
  "strip_PMC pmcid = (if startsWith pmcid ''PMC'' then drop 3 pmcid else pmcid)"

definition fromPMCID_try ::
  "env \<Rightarrow> string \<Rightarrow> parser_state \<Rightarrow> (js_error + CSLJsonResponse) \<times> parser_state" where
  "fromPMCID_try e pmcid st =
     (let pmcIdWithoutPrefix = strip_PMC pmcid in
      case fetch e (pmc_url pmcIdWithoutPrefix) of
        Inl err \<Rightarrow> (Inl err, st)
      | Inr response \<Rightarrow>
          (case response_json response of
             Inl err \<Rightarrow> (Inl err, st)
           | Inr data \<Rightarrow> pubmed_data e PMCID pmcid data st))"

definition fromPMCID :: "env \<Rightarrow> string \<Rightarrow> parser_state \<Rightarrow> CSLJsonResponse \<times> parser_state" where
  "fromPMCID e pmcid st =
     (case fromPMCID_try e pmcid st of
        (Inr result, st') \<Rightarrow> (result, st')
      | (Inl error, st') \<Rightarrow> catch_failed e PMCID (Str pmcid) error st')"

definition fromPMID_try ::
  "env \<Rightarrow> string \<Rightarrow> parser_state \<Rightarrow> (js_error + CSLJsonResponse) \<times> parser_state" where
  "fromPMID_try e pmid st =
     (case fetch e (pubmed_url pmid) of
        Inl err \<Rightarrow> (Inl err, st)
      | Inr response \<Rightarrow>
          (case response_json response of
             Inl err \<Rightarrow> (Inl err, st)
           | Inr data \<Rightarrow> pubmed_data e PMID pmid data st))"

definition fromPMID :: "env \<Rightarrow> string \<Rightarrow> parser_state \<Rightarrow> CSLJsonResponse \<times> parser_state" where
  "fromPMID e pmid st =
     (case fromPMID_try e pmid st of
        (Inr result, st') \<Rightarrow> (result, st')
      | (Inl error, st') \<Rightarrow> catch_failed e PMID (Str pmid) error st')"

subsection \<open>fromURL\<close>

text \<open>\<^verbatim>\<open>/^https?:\/\//i\<close>\<close>

definition scheme_pattern :: regex where
  "scheme_pattern = Seq [LitI ''http'', Opt (LitI ''s''), Lit ''://'']"

text \<open>\<^verbatim>\<open>/pmid:\d+/\<close>, \<^verbatim>\<open>/PMC\d+/\<close>, \<^verbatim>\<open>/doi:[^,]+/\<close>\<close>

definition pmid_keyword :: regex where
  "pmid_keyword = Seq [Lit ''pmid:'', Rep isDigit 1 None]"

definition pmcid_keyword :: regex where
  "pmcid_keyword = Seq [Lit ''PMC'', Rep isDigit 1 None]"

definition doi_keyword :: regex where
  "doi_keyword = Seq [Lit ''doi:'', Rep (\<lambda>c. c \<noteq> CHR '','') 1 None]"

text \<open>\<^verbatim>\<open>s.replace(pattern, replacement)\<close> for a string pattern: the first occurrence only.\<close>

fun replace_first :: "string \<Rightarrow> string \<Rightarrow> string \<Rightarrow> string" where
  "replace_first pattern replacement [] = (if pattern = [] then replacement else [])"
| "replace_first pattern replacement (c # cs) =
     (if startsWith (c # cs) pattern then replacement @ drop (length pattern) (c # cs)
      else c # replace_first pattern replacement cs)"

definition extractContent :: "document \<Rightarrow> string \<Rightarrow> string option \<Rightarrow> string" where
  "extractContent doc selector attr =
     (case querySelector doc selector of
        None \<Rightarrow> []
      | Some el \<Rightarrow>
          (case nonempty attr of
             Some a \<Rightarrow> or_empty (getAttribute el a)
           | None \<Rightarrow> or_empty (textContent el)))"

definition extractAuthors :: "document \<Rightarrow> js_error + jsval" where
  "extractAuthors doc =
     createAuthorsArray
       (Arr (map (\<lambda>meta. Str (or_empty (getAttribute meta ''content'')))
                 (querySelectorAll doc ''meta[name=\"author\"], meta[name=\"article:author\"]'')))"

text \<open>The result is \<^verbatim>\<open>{ doi, pmid, pmcid }\<close>; \<open>None\<close> is \<^verbatim>\<open>undefined\<close>.\<close>

definition getAvailableIdentifiers ::
  "document \<Rightarrow> string \<Rightarrow> string option \<times> string option \<times> string option" where
  "getAvailableIdentifiers doc url =
     (let (pmidMatch, pmcidMatch, doiMatch) =
            (if startsWith url ''https://pubmed.ncbi.nlm.nih.gov'' then
               (let keywords = extractContent doc ''meta[name=\"keywords\"]'' (Some ''content'')
                in (match_first pmid_keyword keywords, match_first pmcid_keyword keywords,
                    match_first doi_keyword keywords))
             else (None, None, None));
          doi =
            (case nonempty (Some (extractContent doc
                    ''meta[name=\"publication_doi\"], meta[name=\"citation_doi\"]'' (Some ''content''))) of
               Some content \<Rightarrow> Some content
             | None \<Rightarrow>
                 (case nonempty doiMatch of
                    Some m \<Rightarrow> Some (replace_first ''doi:'' [] m)
                  | None \<Rightarrow> None));
          pmid =
            (case nonempty (Some (extractContent doc ''meta[name=\"ncbi_uid\"]'' (Some ''content''))) of
               Some content \<Rightarrow> Some content
             | None \<Rightarrow>
                 (case nonempty pmidMatch of
                    Some m \<Rightarrow> Some (replace_first ''pmid:'' [] m)
                  | None \<Rightarrow> None));
          pmcid = nonempty pmcidMatch
      in (doi, pmid, pmcid))"

text \<open>The generic webpage record, after \<^verbatim>\<open>id: uid()\<close>.\<close>

definition webpage_object :: "env \<Rightarrow> string \<Rightarrow> document \<Rightarrow> string \<Rightarrow> js_error + CSLJson" where
  "webpage_object e i doc url =
     (case extractAuthors doc of
        Inl err \<Rightarrow> Inl err
      | Inr author \<Rightarrow>
          Inr \<lparr>csl_id = i,
               csl_DOI = Undefined,
               csl_URL = Str (case nonempty (Some (extractContent doc ''meta[property=\"og:url\"]''
                                                    (Some ''content''))) of
                                Some u \<Rightarrow> u
                              | None \<Rightarrow> url),
               csl_ISSN = Undefined,
               csl_ISBN = Undefined,
               csl_container_title =
                 Str (extractContent doc ''meta[property=\"og:site_name\"]'' (Some ''content'')),
               csl_issue = Undefined,
               csl_issued =
                 createDateObject
                   (Inr (new_Date e (Str (or_empty (nonempty (Some
                      (extractContent doc ''meta[name=\"date\"]'' (Some ''content''))))))))
                   Undefined Undefined,
               csl_page = Undefined,
               csl_number_of_pages = Undefined,
               csl_publisher =
                 Str (extractContent doc ''meta[property=\"article:publisher\"]'' (Some ''content'')),
               csl_publisher_place = Undefined,
               csl_source = Undefined,
               csl_title = Str (extractContent doc ''title'' None),
               csl_volume = Undefined,
               csl_type = Str ''webpage'',
               csl_accessed = createDateObject (Inr (now e)) Undefined Undefined,
               csl_author = author\<rparr>)"

text \<open>
  The \<^verbatim>\<open>try\<close> block after the assignment to \<open>url\<close>. The loop over
  \<^verbatim>\<open>["DOI", "PMID", "PMCID"]\<close> returns at the first identifier that is there.
\<close>

definition fromURL_try ::
  "env \<Rightarrow> string \<Rightarrow> parser_state \<Rightarrow> (js_error + CSLJsonResponse) \<times> parser_state" where
  "fromURL_try e url st =
     (case fetch e (CORS_PROXY @ url) of
        Inl err \<Rightarrow> (Inl err, st)
      | Inr response \<Rightarrow>
          if http_status response = 403 then (Inl (UnableToRetrieve URL (Str url)), st)
          else
            (case response_text response of
               Inl err \<Rightarrow> (Inl err, st)
             | Inr page \<Rightarrow>
                 (case JSDOM e page of
                    Inl err \<Rightarrow> (Inl err, st)
                  | Inr doc \<Rightarrow>
                      (let (doi, pmid, pmcid) = getAvailableIdentifiers doc url in
                       case nonempty doi of
                         Some d \<Rightarrow> (let (result, st') = fromDOI e (Str d) st in (Inr result, st'))
                       | None \<Rightarrow>
                           (case nonempty pmid of
                              Some p \<Rightarrow> (let (result, st') = fromPMID e p st in (Inr result, st'))
                            | None \<Rightarrow>
                                (case nonempty pmcid of
                                   Some c \<Rightarrow>
                                     (let (result, st') = fromPMCID e c st in (Inr result, st'))
                                 | None \<Rightarrow>
                                     (let (i, st1) = uid e st in
                                      case webpage_object e i doc url of
                                        Inl err \<Rightarrow> (Inl err, st1)
                                      | Inr newCslJsonObject \<Rightarrow>
                                          (Inr (Csl newCslJsonObject),
                                           st1\<lparr>cslJson := cslJson st1 @ [newCslJsonObject]\<rparr>))))))))"

text \<open>
  The first statement of the \<^verbatim>\<open>try\<close> block assigns to the parameter: an argument
  without a scheme gets \<^verbatim>\<open>https://\<close> in front, and the \<^verbatim>\<open>catch\<close> block reads the parameter
  after that.
\<close>

definition with_scheme :: "string \<Rightarrow> string" where
  "with_scheme url = (if test_prefix scheme_pattern url then url else ''https://'' @ url)"

definition fromURL :: "env \<Rightarrow> string \<Rightarrow> parser_state \<Rightarrow> CSLJsonResponse \<times> parser_state" where
  "fromURL e url0 st =
     (let url = with_scheme url0 in
      case fromURL_try e url st of
        (Inr result, st') \<Rightarrow> (result, st')
      | (Inl error, st') \<Rightarrow> catch_failed e URL (Str url) error st')"

subsection \<open>toBibliography\<close>

text \<open>
  The world of the renderer. \<open>xhr url\<close> is the \<^verbatim>\<open>responseText\<close> of a synchronous GET
  (\<open>Inl\<close>: \<^verbatim>\<open>send\<close> throws). \<open>citeproc\<close> stands for the citation processor: for the locale
  file that \<^verbatim>\<open>retrieveLocale\<close> returns, the style file, \<^verbatim>\<open>retrieveItem\<close>, the output
  format and the item ids, it gives the value of \<^verbatim>\<open>makeBibliography()\<close> or what one of
  \<^verbatim>\<open>new Citeproc.Engine\<close>, \<^verbatim>\<open>setOutputFormat\<close>, \<^verbatim>\<open>updateItems\<close> and \<^verbatim>\<open>makeBibliography\<close>
  throws. The processor calls \<^verbatim>\<open>retrieveLocale\<close> while the engine is built and does not
  catch what the callback throws, so the locale file is fetched after the style file
  and before the processor does anything else. \<open>render_number_text\<close> is the text JavaScript
  prints for a finite number.
\<close>

record renderer_env =
  xhr :: "string \<Rightarrow> js_error + string"
  citeproc ::
    "string \<Rightarrow> string \<Rightarrow> (string \<Rightarrow> CSLJson option) \<Rightarrow> string \<Rightarrow> string list \<Rightarrow> js_error + jsval"
  render_number_text :: "real \<Rightarrow> string"

text \<open>The options; \<open>None\<close> is a property that is \<^verbatim>\<open>undefined\<close> and takes its default.\<close>

record ToBibliographyOptions =
  opt_style :: "string option"
  opt_locale :: "string option"
  opt_format :: "string option"

definition style_url :: "string \<Rightarrow> string" where
  "style_url style_name =
     ''https://raw.githubusercontent.com/citation-style-language/styles/master/'' @ style_name @ ''.csl''"

definition locale_url :: "string \<Rightarrow> string" where
  "locale_url lang =
     ''https://raw.githubusercontent.com/citation-style-language/locales/master/locales-'' @ lang
     @ ''.xml''"

definition getCslFile :: "renderer_env \<Rightarrow> string \<Rightarrow> js_error + string" where
  "getCslFile r style_name =
     (case xhr r (style_url style_name) of
        Inl err \<Rightarrow> Inl err
      | Inr responseText \<Rightarrow>
          if startsWith responseText ''404:'' then Inl (FailedToRetrieveStyle style_name)
          else Inr responseText)"

definition getLocaleFile :: "renderer_env \<Rightarrow> string \<Rightarrow> js_error + string" where
  "getLocaleFile r lang =
     (case xhr r (locale_url lang) of
        Inl err \<Rightarrow> Inl err
      | Inr responseText \<Rightarrow>
          if startsWith responseText ''404:'' then Inl (FailedToRetrieveLocale lang)
          else Inr responseText)"

text \<open>The loop that fills \<^verbatim>\<open>citations\<close> and \<^verbatim>\<open>itemIDs\<close>.\<close>

fun collect_items ::
  "CSLJson list \<Rightarrow> (string \<Rightarrow> CSLJson option) \<times> string list
    \<Rightarrow> (string \<Rightarrow> CSLJson option) \<times> string list" where
  "collect_items [] (citations, itemIDs) = (citations, itemIDs)"
| "collect_items (item # items) (citations, itemIDs) =
     collect_items items (citations(csl_id item \<mapsto> item), itemIDs @ [csl_id item])"

text \<open>
  \<^verbatim>\<open>references[1].join(...)\<close>: a value without a second element, or with one that is no
  array, has no \<^verbatim>\<open>join\<close> to call.
\<close>

definition getFormattedCitations ::
  "renderer_env \<Rightarrow> CSLJson list \<Rightarrow> string \<Rightarrow> string \<Rightarrow> string \<Rightarrow> js_error + string" where
  "getFormattedCitations r items style_name lang fmt =
     (let (citations, itemIDs) = collect_items items (Map.empty, []) in
      case getCslFile r style_name of
        Inl err \<Rightarrow> Inl err
      | Inr cslFile \<Rightarrow>
          (case getLocaleFile r lang of
             Inl err \<Rightarrow> Inl err
           | Inr localeFile \<Rightarrow>
               (case citeproc r localeFile cslFile citations (toLowerCase fmt) itemIDs of
                  Inl err \<Rightarrow> Inl err
                | Inr references \<Rightarrow>
                    (case at_index references 1 of
                       Inl err \<Rightarrow> Inl err
                     | Inr (Arr entries) \<Rightarrow>
                         Inr (join_array (render_number_text r)
                                (if toLowerCase fmt = ''rtf'' then [LF] else []) entries)
                     | Inr _ \<Rightarrow> Inl TypeError))))"

text \<open>The promise always resolves: to the string, or to \<^verbatim>\<open>null\<close> (\<open>None\<close>).\<close>

definition toBibliography ::
  "renderer_env \<Rightarrow> parser_state \<Rightarrow> ToBibliographyOptions \<Rightarrow> string option \<times> parser_state" where
  "toBibliography r st options =
     (let style_name = (case opt_style options of None \<Rightarrow> ''apa'' | Some s \<Rightarrow> s);
          lang = (case opt_locale options of None \<Rightarrow> ''en-US'' | Some l \<Rightarrow> l);
          fmt = (case opt_format options of None \<Rightarrow> ''text'' | Some f \<Rightarrow> f)
      in case getFormattedCitations r (cslJson st) style_name lang fmt of
           Inr bibliography \<Rightarrow> (Some bibliography, st)
         | Inl error \<Rightarrow>
             (None, if logErrors st then st\<lparr>logged := logged st @ [error]\<rparr> else st))"

section \<open>formatBibliography (index.ts)\<close>

record format_options =
  fo_style :: string
  fo_locale :: string
  fo_format :: string
  fo_showIntext :: bool
  fo_logErrors :: bool

text \<open>
  \<^verbatim>\<open>const [references, intext] = await parser.toBibliography(...)\<close> takes the first two
  elements of what the promise resolves to: of a string, its first two characters; for
  \<^verbatim>\<open>null\<close> it throws. The result is the text to print, \<^verbatim>\<open>null\<close> (\<open>None\<close>), or the error
  thrown; the second component lists the errors the parser wrote to stderr.
\<close>

definition formatBibliography ::
  "renderer_env \<Rightarrow> CSLJson list \<Rightarrow> format_options \<Rightarrow> (js_error + string option) \<times> js_error list" where
  "formatBibliography r content options =
     (let parser = \<lparr>cslJson = content, logErrors = fo_logErrors options, logged = [],
                    random_calls = 0\<rparr>;
          (bibliography, parser') =
             toBibliography r parser
               \<lparr>opt_style = Some (fo_style options), opt_locale = Some (fo_locale options),
                opt_format = Some (fo_format options)\<rparr>
      in case bibliography of
           None \<Rightarrow> (Inl TypeError, logged parser')
         | Some s \<Rightarrow>
             (let references = element (Str s) 0;
                  intext = element (Str s) 1
              in (Inr (if truthy references then
                         Some (RESULT_SUCCESS @ '' '' @ FONT_GREEN
                               @ ''Successfully generated references:'' @ FONT_RESET @ [LF]
                               @ (if fo_showIntext options then
                                    [CR] @ FONT_GRAY @ ''Reference list entries:'' @ FONT_RESET @ [LF]
                                    @ toString (render_number_text r) references @ [LF]
                                    @ [CR] @ FONT_GRAY @ ''In-text citation:'' @ FONT_RESET @ [LF]
                                    @ toString (render_number_text r) intext @ [LF]
                                  else toString (render_number_text r) references)
                               @ [LF])
                       else None),
                  logged parser')))"

section \<open>Configuration (index.ts)\<close>

text \<open>
  The configuration is a \<^verbatim>\<open>Record<string, string>\<close>, the declared type of what
  \<^verbatim>\<open>getConfigFile\<close> returns: the keys with their values, in insertion order.

  The configuration file is missing, or its text parses to a configuration (\<open>Holds\<close>; the
  model keeps the object, the file has its text \<^verbatim>\<open>JSON.stringify(config, null, 2)\<close>), or
  reading or parsing it throws (\<open>Unparsable\<close>, with what \<^verbatim>\<open>${error}\<close> prints for the error).

  \<^verbatim>\<open>fs.writeFileSync\<close> opens the file, which empties it, and then writes the text. It
  succeeds, or it fails before the file is open and the file is as it was, or it fails
  later and the file is left with a beginning of the text, which does not parse (the text
  of a configuration ends with its closing brace). \<open>next_write\<close> says which of the three
  the next call does, with the error it throws and, in the last case, the error that
  parsing what is left will throw.
\<close>

type_synonym config = "(string \<times> string) list"

datatype config_file_state = Missing | Holds config | Unparsable string

datatype write_outcome = Writes | RefusedAtOpen string | FailsAfterOpen string string

record filesystem =
  dir_exists :: bool
  mkdir_error :: "string option"
  config_file :: config_file_state
  next_write :: write_outcome

text \<open>\<^verbatim>\<open>fs.mkdirSync(configDir, { recursive: true })\<close>: \<open>Inl\<close> is the error it throws.\<close>

definition mkdirSync :: "filesystem \<Rightarrow> string + filesystem" where
  "mkdirSync fs =
     (case mkdir_error fs of
        Some error \<Rightarrow> Inl error
      | None \<Rightarrow> Inr (fs\<lparr>dir_exists := True\<rparr>))"

text \<open>\<open>Inl\<close> is the error thrown, with the file system the failed call leaves.\<close>

definition writeFileSync :: "filesystem \<Rightarrow> config \<Rightarrow> (string \<times> filesystem) + filesystem" where
  "writeFileSync fs content =
     (case next_write fs of
        Writes \<Rightarrow> Inr (fs\<lparr>config_file := Holds content\<rparr>)
      | RefusedAtOpen error \<Rightarrow> Inl (error, fs)
      | FailsAfterOpen error parse_error \<Rightarrow> Inl (error, fs\<lparr>config_file := Unparsable parse_error\<rparr>))"

text \<open>
  \<^verbatim>\<open>config[key] = value\<close> for a key that is neither integer-like nor \<^verbatim>\<open>__proto__\<close> (the
  \<^verbatim>\<open>config\<close> subcommand lets only style, locale, format and intext through): an existing
  key keeps its place, a new key goes last.
\<close>

fun assign :: "config \<Rightarrow> string \<Rightarrow> string \<Rightarrow> config" where
  "assign [] key value = [(key, value)]"
| "assign ((k, v) # config) key value =
     (if k = key then (key, value) # config else (k, v) # assign config key value)"

text \<open>A process that has ended: its exit code, the file system and what it printed.\<close>

record exited =
  exit_code :: nat
  files_after :: filesystem
  stdout :: "string list"
  stderr :: "string list"

subsection \<open>getConfigFile\<close>

text \<open>
  The first call of a process, when \<^verbatim>\<open>cachedConfig\<close> is still \<^verbatim>\<open>null\<close>. \<open>Inl\<close> is a process
  that ends here: with exit code 1 after the message of the \<^verbatim>\<open>catch\<close> block, or, when
  \<^verbatim>\<open>mkdirSync\<close> throws, with the exit code 1 of an uncaught error (of what Node prints for
  it the model keeps the error).
\<close>

definition parse_failed_message :: "string \<Rightarrow> string" where
  "parse_failed_message error =
     RESULT_ERROR @ '' '' @ FONT_RED @ ''Failed to parse configuration file: '' @ error
     @ FONT_RESET @ [LF, LF]"

definition getConfigFile :: "filesystem \<Rightarrow> exited + (config \<times> filesystem)" where
  "getConfigFile fs =
     (case (if \<not> dir_exists fs then mkdirSync fs else Inr fs) of
        Inl error \<Rightarrow> Inl \<lparr>exit_code = 1, files_after = fs, stdout = [], stderr = [error]\<rparr>
      | Inr fs1 \<Rightarrow>
          (case config_file fs1 of
             Holds config \<Rightarrow> Inr (config, fs1)
           | Unparsable error \<Rightarrow>
               Inl \<lparr>exit_code = 1, files_after = fs1, stdout = [],
                    stderr = [parse_failed_message error]\<rparr>
           | Missing \<Rightarrow> Inr ([], fs1)))"

subsection \<open>resetConfig, updateConfig, retrieveConfig\<close>

definition resetConfig :: "filesystem \<Rightarrow> exited" where
  "resetConfig fs =
     (case writeFileSync fs [] of
        Inr fs' \<Rightarrow>
          \<lparr>exit_code = 0, files_after = fs',
           stdout = [FONT_YELLOW @ ''All configurations have been reset to default.''
                     @ FONT_RESET @ [LF, LF]],
           stderr = []\<rparr>
      | Inl (error, fs') \<Rightarrow>
          \<lparr>exit_code = 0, files_after = fs', stdout = [],
           stderr = [RESULT_ERROR @ '' '' @ FONT_RED @ ''Failed to reset configuration: ''
                     @ error @ FONT_RESET @ [LF, LF]]\<rparr>)"

text \<open>\<^verbatim>\<open>/^(text|html|rtf|asciidoc)$/\<close>\<close>

definition format_pattern :: regex where
  "format_pattern = Alt (Lit ''text'') (Alt (Lit ''html'') (Alt (Lit ''rtf'') (Lit ''asciidoc'')))"

definition invalid_format_message :: string where
  "invalid_format_message =
     FONT_RED @ ''Invalid format. Allowed formats are: \"text\", \"html\", \"rtf\", or \"asciidoc\".''
     @ FONT_RESET @ [LF, LF]"

definition updated_message :: "string \<Rightarrow> string \<Rightarrow> string" where
  "updated_message key value =
     FONT_YELLOW @ ''Configuration updated: '' @ key @ '' = '' @ value @ FONT_RESET @ [LF, LF]"

definition update_failed_message :: "string \<Rightarrow> string" where
  "update_failed_message error =
     RESULT_ERROR @ '' '' @ FONT_RED @ ''Failed to update configuration: '' @ error
     @ FONT_RESET @ [LF, LF]"

definition updateConfig :: "filesystem \<Rightarrow> config \<Rightarrow> string \<Rightarrow> string \<Rightarrow> exited" where
  "updateConfig fs config key value =
     (if key = ''format'' \<and> \<not> test_full format_pattern value then
        \<lparr>exit_code = 1, files_after = fs, stdout = [], stderr = [invalid_format_message]\<rparr>
      else
        (let config' = assign config key value in
         case writeFileSync fs config' of
           Inr fs' \<Rightarrow>
             \<lparr>exit_code = 0, files_after = fs', stdout = [updated_message key value],
              stderr = []\<rparr>
         | Inl (error, fs') \<Rightarrow>
             \<lparr>exit_code = 0, files_after = fs', stdout = [],
              stderr = [update_failed_message error]\<rparr>))"

text \<open>\<^verbatim>\<open>if (config[key])\<close>: the key is there and its value is not the empty string.\<close>

definition retrieveConfig :: "filesystem \<Rightarrow> config \<Rightarrow> string \<Rightarrow> exited" where
  "retrieveConfig fs config key =
     (case nonempty (map_of config key) of
        Some value \<Rightarrow>
          \<lparr>exit_code = 0, files_after = fs,
           stdout = [FONT_YELLOW @ key @ '' = '' @ value @ FONT_RESET @ [LF, LF]],
           stderr = []\<rparr>
      | None \<Rightarrow>
          \<lparr>exit_code = 0, files_after = fs, stdout = [],
           stderr = [FONT_RED @ ''Key \"'' @ key @ ''\" not found.'' @ FONT_RESET @ [LF, LF]]\<rparr>)"

subsection \<open>handleConfig\<close>

definition ERROR_USAGE_MESSAGE :: string where
  "ERROR_USAGE_MESSAGE =
     [LF] @ FONT_RED @ ''Invalid usage of the \"config\" command.'' @ [LF]
     @ ''Usage:'' @ [LF]
     @ ''  cite config <key> <value>  - Set a configuration key to a value.'' @ [LF]
     @ ''  cite config <key>          - Retrieve the value of a configuration key.'' @ [LF]
     @ ''  cite config reset          - Reset all configurations to defaults.'' @ FONT_RESET
     @ [LF, LF]"

definition invalid_key_message :: string where
  "invalid_key_message =
     FONT_RED
     @ ''Invalid key. Allowed keys are \"style\", \"locale\", \"format\", \"intext\", or \"reset\".''
     @ FONT_RESET @ [LF, LF]"

text \<open>\<^verbatim>\<open>/^(style|locale|format|intext|reset)$/\<close>\<close>

definition validKeys :: regex where
  "validKeys =
     Alt (Lit ''style'') (Alt (Lit ''locale'') (Alt (Lit ''format'') (Alt (Lit ''intext'')
       (Lit ''reset''))))"

text \<open>\<^verbatim>\<open>process.argv[i]\<close>; \<open>None\<close> is \<^verbatim>\<open>undefined\<close>.\<close>

definition argument :: "string list \<Rightarrow> nat \<Rightarrow> string option" where
  "argument argv i = (if i < length argv then Some (argv ! i) else None)"

text \<open>
  \<^verbatim>\<open>handleConfig\<close> ends the process, or returns and \<^verbatim>\<open>main\<close> runs. It loads the
  configuration before it looks at the command.
\<close>

datatype handled = Exits exited | Returns filesystem

definition handleConfig :: "filesystem \<Rightarrow> string list \<Rightarrow> handled" where
  "handleConfig fs argv =
     (case getConfigFile fs of
        Inl ended \<Rightarrow> Exits ended
      | Inr (config, fs1) \<Rightarrow>
          (let command = argument argv 2;
               key = argument argv 3;
               value = argument argv 4;
               extra = argument argv 5
           in if command \<noteq> Some ''config'' then Returns fs1
              else
                case nonempty key of
                  None \<Rightarrow>
                    Exits \<lparr>exit_code = 1, files_after = fs1, stdout = [],
                           stderr = [ERROR_USAGE_MESSAGE]\<rparr>
                | Some k \<Rightarrow>
                    if nonempty extra \<noteq> None \<or> startsWith k ''-''
                       \<or> (case value of None \<Rightarrow> False | Some v \<Rightarrow> startsWith v ''-'')
                    then Exits \<lparr>exit_code = 1, files_after = fs1, stdout = [],
                                stderr = [ERROR_USAGE_MESSAGE]\<rparr>
                    else if \<not> test_full validKeys k
                    then Exits \<lparr>exit_code = 1, files_after = fs1, stdout = [],
                                stderr = [invalid_key_message]\<rparr>
                    else if k = ''reset'' then Exits (resetConfig fs1)
                    else
                      (case nonempty value of
                         Some v \<Rightarrow> Exits (updateConfig fs1 config k v)
                       | None \<Rightarrow> Exits (retrieveConfig fs1 config k))))"

section \<open>Concrete inputs\<close>

text \<open>
  Environments and states at which the properties below are evaluated. \<open>serving pages\<close>
  answers the request URLs listed in \<open>pages\<close> and rejects every other request; no date
  string parses, the clock stands at 15 January 2024, and the random bytes count up.
  Numbers print as \<open>plain_digits\<close>, which is how JavaScript prints the integers below
  \<^verbatim>\<open>1e21\<close> in magnitude; the answers below hold no other number.
\<close>

definition plain_digits :: "real \<Rightarrow> string" where
  "plain_digits x =
     (if x < 0 then ''-'' @ string_of_nat (nat (- \<lfloor>x\<rfloor>)) else string_of_nat (nat \<lfloor>x\<rfloor>))"

definition serving :: "(string \<times> http_response) list \<Rightarrow> env" where
  "serving pages =
     \<lparr>fetch = (\<lambda>url. case map_of pages url of
                        None \<Rightarrow> Inl (Thrown ''fetch failed'')
                      | Some response \<Rightarrow> Inr response),
      JSDOM = (\<lambda>page. Inl (Thrown ''not a page'')),
      new_Date = (\<lambda>v. InvalidDate),
      now = Date 2024 0 15,
      randomBytes = (\<lambda>n i. n + i),
      number_text = plain_digits\<rparr>"

definition json_response :: "nat \<Rightarrow> jsval \<Rightarrow> http_response" where
  "json_response code v =
     \<lparr>http_status = code, response_json = Inr v, response_text = Inl (Thrown ''body already read'')\<rparr>"

definition new_parser :: parser_state where
  "new_parser = \<lparr>cslJson = [], logErrors = False, logged = [], random_calls = 0\<rparr>"

text \<open>PubMed knows the article and its DOI; the DOI registry answers 404 for that DOI.\<close>

definition doi_unknown_to_registry :: env where
  "doi_unknown_to_registry =
     serving [(pubmed_url ''27097605'', json_response 200 (Obj [(''DOI'', Str ''10.1000/xyz123'')])),
              (pmc_url ''6323133'', json_response 200 (Obj [(''DOI'', Str ''10.1000/xyz123'')])),
              (crossref_url ''10.1000/xyz123'', json_response 404 Null)]"

text \<open>PubMed answers with an error body that names a DOI, PubMed Central with an empty DOI.\<close>

definition doi_field_without_redirect :: env where
  "doi_field_without_redirect =
     serving [(pubmed_url ''27097605'',
                 json_response 200 (Obj [(''status'', Str ''error''), (''DOI'', Str ''10.1000/xyz123'')])),
              (pmc_url ''6323133'',
                 json_response 200 (Obj [(''DOI'', Str []), (''title'', Str ''A title'')]))]"





text \<open>The catalogue finds a book whose first edition has the publish date \<^verbatim>\<open>n.d.\<close>\<close>

definition undated_book :: env where
  "undated_book =
     serving [(openlibrary_url ''9783161484100'',
                 json_response 200
                   (Obj [(''numFound'', Num 1),
                         (''docs'', Arr [Obj [(''title'', Str ''A Book''),
                                              (''author_name'', Arr [Str ''Jane Doe'']),
                                              (''editions'', Obj [(''docs'',
                                                 Arr [Obj [(''publish_date'', Arr [Str ''n.d.''])]])])]])]))]"

text \<open>The catalogue finds a book whose first document names no author.\<close>

definition book_without_authors :: env where
  "book_without_authors =
     serving [(openlibrary_url ''9783161484100'',
                 json_response 200
                   (Obj [(''numFound'', Num 1),
                         (''docs'', Arr [Obj [(''title'', Str ''A Book'')]])]))]"

text \<open>
  A renderer whose style and locale files are found and whose processor formats one
  entry, and one whose style file is not found.
\<close>

definition one_entry :: renderer_env where
  "one_entry =
     \<lparr>xhr = (\<lambda>url. Inr ''<xml/>''),
      citeproc = (\<lambda>localeFile cslFile retrieveItem fmt itemIDs.
                    Inr (Arr [Obj [], Arr [Str ''Doe, J. (2020). A Book.'']])),
      render_number_text = plain_digits\<rparr>"

definition style_not_found :: renderer_env where
  "style_not_found =
     \<lparr>xhr = (\<lambda>url. Inr ''404: Not Found''),
      citeproc = (\<lambda>localeFile cslFile retrieveItem fmt itemIDs.
                    Inr (Arr [Obj [], Arr [Str ''Doe, J. (2020). A Book.'']])),
      render_number_text = plain_digits\<rparr>"

definition a_book :: CSLJson where
  "a_book =
     \<lparr>csl_id = ''abcdefghijklmnop'', csl_DOI = Undefined, csl_URL = Undefined, csl_ISSN = Undefined,
      csl_ISBN = Str ''9783161484100'', csl_container_title = Undefined, csl_issue = Undefined,
      csl_issued = Undefined, csl_page = Undefined, csl_number_of_pages = Undefined,
      csl_publisher = Undefined, csl_publisher_place = Undefined, csl_source = Undefined,
      csl_title = Str ''A Book'', csl_volume = Undefined, csl_type = Str ''book'',
      csl_accessed = Obj [(''date-parts'', Arr [Arr [Num 2024, Num 1, Num 15]])],
      csl_author = Arr [Obj [(''given'', Str ''Jane''), (''family'', Str ''Doe'')]]\<rparr>"

text \<open>
  A configuration directory whose file holds the style \<^verbatim>\<open>apa\<close>; the same with a file that
  cannot be opened for writing; the same on a full disk, where the write fails after the
  file was opened; and one whose file does not parse.
\<close>

definition apa_config :: filesystem where
  "apa_config =
     \<lparr>dir_exists = True, mkdir_error = None, config_file = Holds [(''style'', ''apa'')],
      next_write = Writes\<rparr>"

definition read_only_config :: filesystem where
  "read_only_config = apa_config\<lparr>next_write := RefusedAtOpen ''EACCES''\<rparr>"

definition broken_config :: filesystem where
  "broken_config = apa_config\<lparr>config_file := Unparsable ''SyntaxError''\<rparr>"

definition interrupted_config :: filesystem where
  "interrupted_config = apa_config\<lparr>next_write := FailsAfterOpen ''ENOSPC'' ''SyntaxError''\<rparr>"
section \<open>Verified properties\<close>

subsection \<open>Identifier classifier\<close>


lemma startsWith_append: "startsWith s p \<longleftrightarrow> (\<exists>r. s = p @ r)"
  unfolding startsWith_def
  by (metis append_eq_conv_conj append_take_drop_id)

lemma find_prefix_url: "find (\<lambda>(prefix, ty). startsWith (''url:'' @ r) prefix) identifierPrefixes = Some (''url:'', URL)"
  by (simp add: identifierPrefixes_def startsWith_def)
lemma find_prefix_doi: "find (\<lambda>(prefix, ty). startsWith (''doi:'' @ r) prefix) identifierPrefixes = Some (''doi:'', DOI)"
  by (simp add: identifierPrefixes_def startsWith_def)
lemma find_prefix_pmcid: "find (\<lambda>(prefix, ty). startsWith (''pmcid:'' @ r) prefix) identifierPrefixes = Some (''pmcid:'', PMCID)"
  by (simp add: identifierPrefixes_def startsWith_def)
lemma find_prefix_pmid: "find (\<lambda>(prefix, ty). startsWith (''pmid:'' @ r) prefix) identifierPrefixes = Some (''pmid:'', PMID)"
  by (simp add: identifierPrefixes_def startsWith_def)
lemma find_prefix_isbn: "find (\<lambda>(prefix, ty). startsWith (''isbn:'' @ r) prefix) identifierPrefixes = Some (''isbn:'', ISBN)"
  by (simp add: identifierPrefixes_def startsWith_def)

lemma find_prefix:
  assumes "(prefix, ty) \<in> set identifierPrefixes" and "startsWith t prefix"
  shows "find (\<lambda>(prefix, ty). startsWith t prefix) identifierPrefixes = Some (prefix, ty)"
proof -
  from assms(2) obtain r where t: "t = prefix @ r"
    by (auto simp: startsWith_append)
  from assms(1) consider "prefix = ''url:''" "ty = URL" | "prefix = ''doi:''" "ty = DOI"
    | "prefix = ''pmcid:''" "ty = PMCID" | "prefix = ''pmid:''" "ty = PMID"
    | "prefix = ''isbn:''" "ty = ISBN"
    unfolding identifierPrefixes_def by fastforce
  then show ?thesis
  proof cases
    case 1 then show ?thesis unfolding t by (simp only: find_prefix_url)
  next
    case 2 then show ?thesis unfolding t by (simp only: find_prefix_doi)
  next
    case 3 then show ?thesis unfolding t by (simp only: find_prefix_pmcid)
  next
    case 4 then show ?thesis unfolding t by (simp only: find_prefix_pmid)
  next
    case 5 then show ?thesis unfolding t by (simp only: find_prefix_isbn)
  qed
qed

text \<open>
  Claim C4. When the trimmed input starts with one of the five explicit prefixes
  \<^verbatim>\<open>url:\<close>, \<^verbatim>\<open>doi:\<close>, \<^verbatim>\<open>pmcid:\<close>, \<^verbatim>\<open>pmid:\<close>, \<^verbatim>\<open>isbn:\<close>, the classifier returns
  the type of that prefix and, as value, the rest after the prefix, trimmed. No pattern is
  tested: nothing is asked of the rest, which may be empty or no identifier of that type.
\<close>

theorem explicit_prefix_forces_type:
  assumes "(prefix, ty) \<in> set identifierPrefixes" and "startsWith (trim input) prefix"
  shows "recognizeIdentifierType input = (ty, trim (slice_from (trim input) (length prefix)))"
  using find_prefix [OF assms]
  by (simp add: recognizeIdentifierType_def Let_def)

lemma URL_pattern_http: "test_full URL_pattern s \<Longrightarrow> startsWith s ''http''"
  by (auto simp: test_full_def URL_pattern_def split: if_splits)

lemma no_prefix_of_http:
  assumes "startsWith (strip_hyphens t) ''http''"
  shows "find (\<lambda>(prefix, ty). startsWith t prefix) identifierPrefixes = None"
proof -
  have "\<not> startsWith t p" if "p \<in> set [''url:'', ''doi:'', ''pmcid:'', ''pmid:'', ''isbn:'']" for p
  proof
    assume "startsWith t p"
    then obtain r where "t = p @ r" by (auto simp: startsWith_append)
    with that assms show False
      by (auto simp: strip_hyphens_def startsWith_def)
  qed
  then show ?thesis
    by (simp add: identifierPrefixes_def)
qed

text \<open>
  Claim C3. When the trimmed input with its hyphens removed matches both the DOI pattern
  and the URL pattern, the classifier returns the type DOI (with the trimmed input, hyphens
  kept, as value), never URL.
\<close>

theorem doi_tested_before_url:
  assumes "test_full DOI_pattern (strip_hyphens (trim input))"
    and "test_full URL_pattern (strip_hyphens (trim input))"
  shows "recognizeIdentifierType input = (DOI, trim input)"
  using no_prefix_of_http [OF URL_pattern_http [OF assms(2)]] assms(1)
  by (simp add: recognizeIdentifierType_def Let_def patterns_def)


theorem doi_tested_before_url_witness:
  "test_full DOI_pattern (strip_hyphens (trim ''https://doi.org/10.1000/xyz-123 ''))
   \<and> test_full URL_pattern (strip_hyphens (trim ''https://doi.org/10.1000/xyz-123 ''))
   \<and> recognizeIdentifierType ''https://doi.org/10.1000/xyz-123 '' = (DOI, ''https://doi.org/10.1000/xyz-123'')"
proof -
  have t: "trim ''https://doi.org/10.1000/xyz-123 '' = ''https://doi.org/10.1000/xyz-123''"
    by (simp add: trim_def isWhiteSpace_def)
  have c: "strip_hyphens ''https://doi.org/10.1000/xyz-123'' = ''https://doi.org/10.1000/xyz123''"
    by (simp add: strip_hyphens_def)
  have d: "test_full DOI_pattern ''https://doi.org/10.1000/xyz123''"
    by (simp add: test_full_def DOI_pattern_def startsWith_def isDigit_def doi_char_def isAlnum_def isLower_def isUpper_def)
  have u: "test_full URL_pattern ''https://doi.org/10.1000/xyz123''"
    by (simp add: test_full_def URL_pattern_def startsWith_def isDigit_def url_char_def isAlnum_def isLower_def isUpper_def)
  show ?thesis
    using doi_tested_before_url [of "''https://doi.org/10.1000/xyz-123 ''"] d u
    by (simp add: t c)
qed

theorem explicit_prefix_forces_type_witness:
  "(''doi:'', DOI) \<in> set identifierPrefixes \<and> startsWith (trim '' doi: not a doi '') ''doi:''
   \<and> recognizeIdentifierType '' doi: not a doi '' = (DOI, ''not a doi'')"
proof -
  have t: "trim '' doi: not a doi '' = ''doi: not a doi''"
    by (simp add: trim_def isWhiteSpace_def)
  have m: "(''doi:'', DOI) \<in> set identifierPrefixes"
    by (simp add: identifierPrefixes_def)
  have s: "startsWith (trim '' doi: not a doi '') ''doi:''"
    by (simp add: t startsWith_def)
  have r: "trim (slice_from ''doi: not a doi'' (length ''doi:'')) = ''not a doi''"
    by (simp add: trim_def isWhiteSpace_def slice_from_def)
  have "recognizeIdentifierType '' doi: not a doi '' = (DOI, ''not a doi'')"
    using explicit_prefix_forces_type [OF m s] unfolding t r .
  with m s show ?thesis by (simp only: simp_thms)
qed



subsection \<open>Source adapters\<close>


lemma uid_store [simp]: "cslJson (snd (uid e st)) = cslJson st"
  by (simp add: uid_def)

lemma catch_failed_marker:
  "fst (catch_failed e ty ident err st) =
     Failed \<lparr>failed_id = fst (uid e (if logErrors st then st\<lparr>logged := logged st @ [err]\<rparr> else st)),
             failed_identifier = ident, failed_type = ty, status = ''failed''\<rparr>"
  by (simp add: catch_failed_def Let_def split: prod.splits)

lemma catch_failed_store [simp]: "cslJson (snd (catch_failed e ty ident err st)) = cslJson st"
  by (simp add: catch_failed_def Let_def uid_def split: prod.splits)

lemma fromDOI_try_returns:
  assumes "fromDOI_try e doi st = (Inr res, st')"
  shows "\<exists>c. res = Csl c \<and> cslJson st' = cslJson st @ [c]"
  using assms
  by (auto simp: fromDOI_try_def Let_def uid_def split: sum.splits if_splits prod.splits)

lemma fromDOI_try_throws:
  assumes "fromDOI_try e doi st = (Inl err, st')"
  shows "cslJson st' = cslJson st"
  using assms
  by (auto simp: fromDOI_try_def Let_def uid_def split: sum.splits if_splits prod.splits)

lemma fromDOI_result:
  assumes "fromDOI e doi st = (res, st')"
  shows "(\<exists>c. res = Csl c \<and> cslJson st' = cslJson st @ [c])
       \<or> (\<exists>i. res = Failed \<lparr>failed_id = i, failed_identifier = doi, failed_type = DOI, status = ''failed''\<rparr>
             \<and> cslJson st' = cslJson st)"
proof (cases "fromDOI_try e doi st")
  case (Pair out st1)
  show ?thesis
  proof (cases out)
    case (Inr r)
    with Pair assms have "res = r" "st' = st1" by (simp_all add: fromDOI_def)
    with fromDOI_try_returns [of e doi st r st1] Pair Inr show ?thesis by simp
  next
    case (Inl err)
    with Pair assms have r: "(res, st') = catch_failed e DOI doi err st1" by (simp add: fromDOI_def)
    have "cslJson st1 = cslJson st" using fromDOI_try_throws Pair Inl by simp
    moreover have "res = fst (catch_failed e DOI doi err st1)" "st' = snd (catch_failed e DOI doi err st1)"
      using r by (metis fst_conv, metis snd_conv)
    ultimately show ?thesis by (simp add: catch_failed_marker)
  qed
qed


lemma fromISBN_try_returns:
  assumes "fromISBN_try e isbn st = (Inr res, st')"
  shows "\<exists>c. res = Csl c \<and> cslJson st' = cslJson st @ [c]"
  using assms
  by (auto simp: fromISBN_try_def Let_def uid_def split: sum.splits if_splits prod.splits)

lemma fromISBN_try_throws:
  assumes "fromISBN_try e isbn st = (Inl err, st')"
  shows "cslJson st' = cslJson st"
  using assms
  by (auto simp: fromISBN_try_def Let_def uid_def split: sum.splits if_splits prod.splits)

lemma fromISBN_result:
  assumes "fromISBN e isbn st = (res, st')"
  shows "(\<exists>c. res = Csl c \<and> cslJson st' = cslJson st @ [c])
       \<or> (\<exists>i. res = Failed \<lparr>failed_id = i, failed_identifier = Str isbn, failed_type = ISBN, status = ''failed''\<rparr>
             \<and> cslJson st' = cslJson st)"
proof (cases "fromISBN_try e isbn st")
  case (Pair out st1)
  show ?thesis
  proof (cases out)
    case (Inr r)
    with Pair assms have "res = r" "st' = st1" by (simp_all add: fromISBN_def)
    with fromISBN_try_returns [of e isbn st r st1] Pair Inr show ?thesis by simp
  next
    case (Inl err)
    with Pair assms have r: "(res, st') = catch_failed e ISBN (Str isbn) err st1"
      by (simp add: fromISBN_def)
    have "cslJson st1 = cslJson st" using fromISBN_try_throws Pair Inl by simp
    moreover have "res = fst (catch_failed e ISBN (Str isbn) err st1)"
      "st' = snd (catch_failed e ISBN (Str isbn) err st1)"
      using r by (metis fst_conv, metis snd_conv)
    ultimately show ?thesis by (simp add: catch_failed_marker)
  qed
qed

lemma pubmed_data_throws:
  assumes "pubmed_data e ty ident data st = (Inl err, st')"
  shows "st' = st"
  using assms
  by (auto simp: pubmed_data_def Let_def split: sum.splits if_splits prod.splits)

lemma pubmed_data_returns:
  assumes "pubmed_data e ty ident data st = (Inr res, st')"
  shows "(\<exists>c. res = Csl c \<and> cslJson st' = cslJson st @ [c])
       \<or> (\<exists>i d. res = Failed \<lparr>failed_id = i, failed_identifier = d, failed_type = DOI, status = ''failed''\<rparr>
             \<and> cslJson st' = cslJson st \<and> fromDOI e d st = (res, st'))"
proof (cases "truthy (opt_prop data ''DOI'')")
  case True
  with assms have "fromDOI e (opt_prop data ''DOI'') st = (res, st')"
    by (auto simp: pubmed_data_def Let_def split: sum.splits if_splits prod.splits)
  with fromDOI_result [of e "opt_prop data ''DOI''" st res st'] show ?thesis by auto
next
  case False
  with assms show ?thesis
    by (auto simp: pubmed_data_def Let_def uid_def split: sum.splits if_splits prod.splits)
qed

lemma fromPMID_try_throws:
  assumes "fromPMID_try e pmid st = (Inl err, st')"
  shows "st' = st"
  using assms pubmed_data_throws
  by (auto simp: fromPMID_try_def Let_def split: sum.splits if_splits prod.splits)

lemma fromPMCID_try_throws:
  assumes "fromPMCID_try e pmcid st = (Inl err, st')"
  shows "st' = st"
  using assms pubmed_data_throws
  by (auto simp: fromPMCID_try_def Let_def split: sum.splits if_splits prod.splits)

lemma fromPMID_try_returns:
  assumes "fromPMID_try e pmid st = (Inr res, st')"
  shows "\<exists>data. pubmed_data e PMID pmid data st = (Inr res, st')"
  using assms
  by (auto simp: fromPMID_try_def Let_def split: sum.splits if_splits prod.splits)

lemma fromPMCID_try_returns:
  assumes "fromPMCID_try e pmcid st = (Inr res, st')"
  shows "\<exists>data. pubmed_data e PMCID pmcid data st = (Inr res, st')"
  using assms
  by (auto simp: fromPMCID_try_def Let_def split: sum.splits if_splits prod.splits)

lemma fromPMID_result:
  assumes "fromPMID e pmid st = (res, st')"
  shows "(\<exists>c. res = Csl c \<and> cslJson st' = cslJson st @ [c])
       \<or> (\<exists>i. res = Failed \<lparr>failed_id = i, failed_identifier = Str pmid, failed_type = PMID, status = ''failed''\<rparr>
             \<and> cslJson st' = cslJson st)
       \<or> (\<exists>i d. res = Failed \<lparr>failed_id = i, failed_identifier = d, failed_type = DOI, status = ''failed''\<rparr>
             \<and> cslJson st' = cslJson st \<and> fromDOI e d st = (res, st'))"
proof (cases "fromPMID_try e pmid st")
  case (Pair out st1)
  show ?thesis
  proof (cases out)
    case (Inr r)
    with Pair assms have "res = r" "st' = st1" by (simp_all add: fromPMID_def)
    with fromPMID_try_returns [of e pmid st r st1] Pair Inr
    obtain data where "pubmed_data e PMID pmid data st = (Inr res, st')" by auto
    from pubmed_data_returns [OF this] show ?thesis by blast
  next
    case (Inl err)
    with Pair assms have r: "(res, st') = catch_failed e PMID (Str pmid) err st1"
      by (simp add: fromPMID_def)
    have "st1 = st" using fromPMID_try_throws Pair Inl by simp
    moreover have "res = fst (catch_failed e PMID (Str pmid) err st1)"
      "st' = snd (catch_failed e PMID (Str pmid) err st1)"
      using r by (metis fst_conv, metis snd_conv)
    ultimately show ?thesis by (simp add: catch_failed_marker)
  qed
qed

lemma fromPMCID_result:
  assumes "fromPMCID e pmcid st = (res, st')"
  shows "(\<exists>c. res = Csl c \<and> cslJson st' = cslJson st @ [c])
       \<or> (\<exists>i. res = Failed \<lparr>failed_id = i, failed_identifier = Str pmcid, failed_type = PMCID, status = ''failed''\<rparr>
             \<and> cslJson st' = cslJson st)
       \<or> (\<exists>i d. res = Failed \<lparr>failed_id = i, failed_identifier = d, failed_type = DOI, status = ''failed''\<rparr>
             \<and> cslJson st' = cslJson st \<and> fromDOI e d st = (res, st'))"
proof (cases "fromPMCID_try e pmcid st")
  case (Pair out st1)
  show ?thesis
  proof (cases out)
    case (Inr r)
    with Pair assms have "res = r" "st' = st1" by (simp_all add: fromPMCID_def)
    with fromPMCID_try_returns [of e pmcid st r st1] Pair Inr
    obtain data where "pubmed_data e PMCID pmcid data st = (Inr res, st')" by auto
    from pubmed_data_returns [OF this] show ?thesis by blast
  next
    case (Inl err)
    with Pair assms have r: "(res, st') = catch_failed e PMCID (Str pmcid) err st1"
      by (simp add: fromPMCID_def)
    have "st1 = st" using fromPMCID_try_throws Pair Inl by simp
    moreover have "res = fst (catch_failed e PMCID (Str pmcid) err st1)"
      "st' = snd (catch_failed e PMCID (Str pmcid) err st1)"
      using r by (metis fst_conv, metis snd_conv)
    ultimately show ?thesis by (simp add: catch_failed_marker)
  qed
qed

lemma fromURL_try_throws:
  assumes "fromURL_try e url st = (Inl err, st')"
  shows "cslJson st' = cslJson st"
  using assms
  by (auto simp: fromURL_try_def Let_def uid_def split: sum.splits if_splits prod.splits option.splits)

lemma fromURL_try_returns:
  assumes "fromURL_try e url st = (Inr res, st')"
  shows "(\<exists>c. res = Csl c \<and> cslJson st' = cslJson st @ [c])
       \<or> (\<exists>d. fromDOI e (Str d) st = (res, st'))
       \<or> (\<exists>p. fromPMID e p st = (res, st'))
       \<or> (\<exists>c. fromPMCID e c st = (res, st'))"
  using assms
  by (auto simp: fromURL_try_def Let_def uid_def split: sum.splits if_splits prod.splits option.splits)


lemma fromURL_result:
  assumes "fromURL e url st = (res, st')"
  shows "(\<exists>c. res = Csl c \<and> cslJson st' = cslJson st @ [c])
       \<or> (\<exists>m. res = Failed m \<and> cslJson st' = cslJson st \<and> status m = ''failed''
             \<and> (failed_type m = URL \<and> failed_identifier m = Str (with_scheme url)
                \<or> (\<exists>d. fromDOI e (Str d) st = (res, st'))
                \<or> (\<exists>p. fromPMID e p st = (res, st'))
                \<or> (\<exists>c. fromPMCID e c st = (res, st'))))"
proof (cases "fromURL_try e (with_scheme url) st")
  case (Pair out st1)
  show ?thesis
  proof (cases out)
    case (Inr r)
    with Pair assms have "res = r" "st' = st1" by (simp_all add: fromURL_def Let_def)
    with Pair Inr have t: "fromURL_try e (with_scheme url) st = (Inr res, st')" by simp
    from fromURL_try_returns [OF t]
    consider (page) c where "res = Csl c" "cslJson st' = cslJson st @ [c]"
      | (doi) d where "fromDOI e (Str d) st = (res, st')"
      | (pmid) p where "fromPMID e p st = (res, st')"
      | (pmcid) c where "fromPMCID e c st = (res, st')"
      by blast
    then show ?thesis
    proof cases
      case page then show ?thesis by simp
    next
      case doi
      from fromDOI_result [OF doi] doi show ?thesis by auto
    next
      case pmid
      from fromPMID_result [OF pmid] pmid show ?thesis by auto
    next
      case pmcid
      from fromPMCID_result [OF pmcid] pmcid show ?thesis by auto
    qed
  next
    case (Inl err)
    with Pair assms have r: "(res, st') = catch_failed e URL (Str (with_scheme url)) err st1"
      by (simp add: fromURL_def Let_def)
    have "cslJson st1 = cslJson st" using fromURL_try_throws Pair Inl by simp
    moreover have "res = fst (catch_failed e URL (Str (with_scheme url)) err st1)"
      "st' = snd (catch_failed e URL (Str (with_scheme url)) err st1)"
      using r by (metis fst_conv, metis snd_conv)
    ultimately show ?thesis by (simp add: catch_failed_marker)
  qed
qed

text \<open>
  Claim C9. Each of the five adapters, also when it hands the identifier on to another
  adapter, leaves a record store that is the store before the call with the returned record
  added at the end when it returns a record, and the store before the call when it returns a
  failure marker. The records that were there stay as they were.
\<close>

theorem adapter_store_effect:
  "(case fromDOI e doi st of
      (Csl r, st') \<Rightarrow> cslJson st' = cslJson st @ [r]
    | (Failed m, st') \<Rightarrow> cslJson st' = cslJson st)
 \<and> (case fromURL e url st of
      (Csl r, st') \<Rightarrow> cslJson st' = cslJson st @ [r]
    | (Failed m, st') \<Rightarrow> cslJson st' = cslJson st)
 \<and> (case fromISBN e isbn st of
      (Csl r, st') \<Rightarrow> cslJson st' = cslJson st @ [r]
    | (Failed m, st') \<Rightarrow> cslJson st' = cslJson st)
 \<and> (case fromPMID e pmid st of
      (Csl r, st') \<Rightarrow> cslJson st' = cslJson st @ [r]
    | (Failed m, st') \<Rightarrow> cslJson st' = cslJson st)
 \<and> (case fromPMCID e pmcid st of
      (Csl r, st') \<Rightarrow> cslJson st' = cslJson st @ [r]
    | (Failed m, st') \<Rightarrow> cslJson st' = cslJson st)"
proof (intro conjI)
  obtain res st' where eq: "fromDOI e doi st = (res, st')" by fastforce
  from fromDOI_result [OF eq] show "case fromDOI e doi st of
      (Csl r, st') \<Rightarrow> cslJson st' = cslJson st @ [r]
    | (Failed m, st') \<Rightarrow> cslJson st' = cslJson st"
    by (auto simp: eq)
next
  obtain res st' where eq: "fromURL e url st = (res, st')" by fastforce
  from fromURL_result [OF eq] show "case fromURL e url st of
      (Csl r, st') \<Rightarrow> cslJson st' = cslJson st @ [r]
    | (Failed m, st') \<Rightarrow> cslJson st' = cslJson st"
    by (auto simp: eq)
next
  obtain res st' where eq: "fromISBN e isbn st = (res, st')" by fastforce
  from fromISBN_result [OF eq] show "case fromISBN e isbn st of
      (Csl r, st') \<Rightarrow> cslJson st' = cslJson st @ [r]
    | (Failed m, st') \<Rightarrow> cslJson st' = cslJson st"
    by (auto simp: eq)
next
  obtain res st' where eq: "fromPMID e pmid st = (res, st')" by fastforce
  from fromPMID_result [OF eq] show "case fromPMID e pmid st of
      (Csl r, st') \<Rightarrow> cslJson st' = cslJson st @ [r]
    | (Failed m, st') \<Rightarrow> cslJson st' = cslJson st"
    by (auto simp: eq)
next
  obtain res st' where eq: "fromPMCID e pmcid st = (res, st')" by fastforce
  from fromPMCID_result [OF eq] show "case fromPMCID e pmcid st of
      (Csl r, st') \<Rightarrow> cslJson st' = cslJson st @ [r]
    | (Failed m, st') \<Rightarrow> cslJson st' = cslJson st"
    by (auto simp: eq)
qed














lemma pubmed_data_redirect:
  assumes "map_of kvs ''DOI'' = Some doi" and "truthy doi"
    and "map_of kvs ''status'' \<noteq> Some (Str ''error'')"
  shows "pubmed_data e ty ident (Obj kvs) st
           = (Inr (fst (fromDOI e doi st)), snd (fromDOI e doi st))"
proof -
  have "field (Obj kvs) ''status'' \<noteq> Str ''error''"
    using assms(3) by (cases "map_of kvs ''status''") auto
  moreover have "opt_prop (Obj kvs) ''DOI'' = doi"
    using assms(1) by (simp add: opt_prop_def nullish_def)
  ultimately show ?thesis
    using assms(2) by (simp add: pubmed_data_def Let_def split: prod.splits)
qed
















text \<open>
  Claim C2, as the code has it. When the answer to a \<^verbatim>\<open>fromPMID\<close> or \<^verbatim>\<open>fromPMCID\<close>
  request is a JSON object that is not an error answer (its \<^verbatim>\<open>status\<close> is not
  \<^verbatim>\<open>"error"\<close>) and whose DOI field holds a value that counts as true (a DOI that is not
  the empty string), the call is the \<^verbatim>\<open>fromDOI\<close> call on that DOI: the same result, record
  or failure marker of type DOI, and the same state afterwards, so nothing but what
  \<^verbatim>\<open>fromDOI\<close> appends reaches the record store.
\<close>

theorem pubmed_redirects_to_DOI:
  assumes "response_json response = Inr (Obj kvs)"
    and "map_of kvs ''DOI'' = Some doi" and "truthy doi"
    and "map_of kvs ''status'' \<noteq> Some (Str ''error'')"
  shows "(fetch e (pubmed_url pmid) = Inr response \<longrightarrow> fromPMID e pmid st = fromDOI e doi st)
       \<and> (fetch e (pmc_url (strip_PMC pmcid)) = Inr response \<longrightarrow>
            fromPMCID e pmcid st = fromDOI e doi st)"
  using assms(1) pubmed_data_redirect [OF assms(2-4)]
  by (simp add: fromPMID_def fromPMID_try_def fromPMCID_def fromPMCID_try_def Let_def)

theorem pubmed_redirects_to_DOI_witness:
  "fromPMID doi_unknown_to_registry ''27097605'' new_parser
     = fromDOI doi_unknown_to_registry (Str ''10.1000/xyz123'') new_parser
   \<and> fromPMCID doi_unknown_to_registry ''PMC6323133'' new_parser
     = fromDOI doi_unknown_to_registry (Str ''10.1000/xyz123'') new_parser"
proof -
  let ?response = "json_response 200 (Obj [(''DOI'', Str ''10.1000/xyz123'')])"
  have j: "response_json ?response = Inr (Obj [(''DOI'', Str ''10.1000/xyz123'')])"
    by (simp add: json_response_def)
  have d: "map_of [(''DOI'', Str ''10.1000/xyz123'')] ''DOI'' = Some (Str ''10.1000/xyz123'')"
    by simp
  have t: "truthy (Str ''10.1000/xyz123'')" by simp
  have s: "map_of [(''DOI'', Str ''10.1000/xyz123'')] ''status'' \<noteq> Some (Str ''error'')"
    by simp
  have f1: "fetch doi_unknown_to_registry (pubmed_url ''27097605'') = Inr ?response"
    by code_simp
  have f2: "fetch doi_unknown_to_registry (pmc_url (strip_PMC ''PMC6323133'')) = Inr ?response"
    by code_simp
  from pubmed_redirects_to_DOI [OF j d t s, of doi_unknown_to_registry "''27097605''" new_parser
      "''PMC6323133''"] f1 f2
  show ?thesis by blast
qed

text \<open>
  Claim C2 as stated fails for two answers that contain a DOI field. An error answer with
  a DOI makes \<^verbatim>\<open>fromPMID\<close> return its own failure marker, which is not what \<^verbatim>\<open>fromDOI\<close>
  returns for that DOI. An answer whose DOI is the empty string makes \<^verbatim>\<open>fromPMCID\<close>
  build the PubMed-shaped record and append it to the store.
\<close>

theorem doi_field_without_redirect_counterexample:
  "fst (fromPMID doi_field_without_redirect ''27097605'' new_parser) =
     Failed \<lparr>failed_id = ''abcdefghijklmnop'', failed_identifier = Str ''27097605'',
             failed_type = PMID, status = ''failed''\<rparr>
   \<and> fst (fromDOI doi_field_without_redirect (Str ''10.1000/xyz123'') new_parser) =
     Failed \<lparr>failed_id = ''abcdefghijklmnop'', failed_identifier = Str ''10.1000/xyz123'',
             failed_type = DOI, status = ''failed''\<rparr>
   \<and> fromPMCID doi_field_without_redirect ''PMC6323133'' new_parser =
     (Csl (pubmed_object doi_field_without_redirect ''abcdefghijklmnop''
             (Obj [(''DOI'', Str []), (''title'', Str ''A title'')])),
      new_parser\<lparr>cslJson := [pubmed_object doi_field_without_redirect ''abcdefghijklmnop''
                                 (Obj [(''DOI'', Str []), (''title'', Str ''A title'')])],
                 random_calls := 1\<rparr>)"
  by code_simp



lemma fromISBN_try_without_author_name:
  assumes "fetch e (openlibrary_url isbn) = Inr response"
    and "response_json response = Inr (Obj kvs)"
    and "map_of kvs ''numFound'' = Some (Num n)" and "0 < n"
    and "map_of kvs ''docs'' = Some (Arr (Obj doc # others))"
    and "map_of doc ''author_name'' = None"
  shows "\<exists>err st1. fromISBN_try e isbn st = (Inl err, st1)"
proof -
  have docs: "at_index (field (Obj kvs) ''docs'') 0 = Inr (Obj doc)"
    using assms(5) by (simp add: at_index_def nullish_def)
  have author: "createAuthorsArray (opt_prop (Obj doc) ''author_name'') = Inl TypeError"
    using assms(6) by (simp add: opt_prop_def nullish_def createAuthorsArray_def)
  have found: "get_prop (Obj kvs) ''numFound'' = Inr (Num n)"
    using assms(3) by (simp add: get_prop_def nullish_def)
  show ?thesis
    using assms(1,2,4) docs author found
    by (simp add: fromISBN_try_def Let_def split: sum.splits prod.splits)
qed

text \<open>
  Claim C10. When the catalogue answers an ISBN search with a positive \<^verbatim>\<open>numFound\<close> and
  the first document of the answer has no \<^verbatim>\<open>author_name\<close> field, \<^verbatim>\<open>fromISBN\<close> returns a
  failure marker of type ISBN with the ISBN it was called with, and appends nothing to the
  record store: mapping over the missing author list throws, and the adapter catches it.
\<close>

theorem fromISBN_without_author_name:
  assumes "fetch e (openlibrary_url isbn) = Inr response"
    and "response_json response = Inr (Obj kvs)"
    and "map_of kvs ''numFound'' = Some (Num n)" and "0 < n"
    and "map_of kvs ''docs'' = Some (Arr (Obj doc # others))"
    and "map_of doc ''author_name'' = None"
  shows "(\<exists>i. fst (fromISBN e isbn st) =
            Failed \<lparr>failed_id = i, failed_identifier = Str isbn, failed_type = ISBN,
                    status = ''failed''\<rparr>)
       \<and> cslJson (snd (fromISBN e isbn st)) = cslJson st"
proof -
  from fromISBN_try_without_author_name [OF assms]
  obtain err st1 where t: "fromISBN_try e isbn st = (Inl err, st1)" by blast
  from fromISBN_try_throws [OF t] have "cslJson st1 = cslJson st" .
  with t show ?thesis
    by (simp add: fromISBN_def catch_failed_marker)
qed

theorem fromISBN_without_author_name_witness:
  "(\<exists>i. fst (fromISBN book_without_authors ''9783161484100'' new_parser) =
            Failed \<lparr>failed_id = i, failed_identifier = Str ''9783161484100'', failed_type = ISBN,
                    status = ''failed''\<rparr>)
   \<and> cslJson (snd (fromISBN book_without_authors ''9783161484100'' new_parser)) = cslJson new_parser"
proof -
  let ?doc = "[(''title'', Str ''A Book'')]"
  let ?kvs = "[(''numFound'', Num 1), (''docs'', Arr [Obj ?doc])]"
  have f: "fetch book_without_authors (openlibrary_url ''9783161484100'')
             = Inr (json_response 200 (Obj ?kvs))"
    by code_simp
  have j: "response_json (json_response 200 (Obj ?kvs)) = Inr (Obj ?kvs)"
    by (simp add: json_response_def)
  have n: "map_of ?kvs ''numFound'' = Some (Num 1)" by simp
  have p: "(0::real) < 1" by simp
  have d: "map_of ?kvs ''docs'' = Some (Arr (Obj ?doc # []))" by simp
  have a: "map_of ?doc ''author_name'' = None" by simp
  show ?thesis
    by (rule fromISBN_without_author_name [OF f j n p d a])
qed

text \<open>
  Claim C7 says that \<^verbatim>\<open>issued\<close> is left out when the publish date does not parse. The code
  tests the \<^verbatim>\<open>Date\<close> object for truth, and every \<^verbatim>\<open>Date\<close> object is true, the invalid one
  too: for a first edition with the publish date \<^verbatim>\<open>n.d.\<close> the returned and stored record
  has an \<^verbatim>\<open>issued\<close> field whose only date part is \<^verbatim>\<open>NaN\<close>.
\<close>

theorem fromISBN_unparseable_publish_date:
  "fromISBN undated_book ''9783161484100'' new_parser =
     (Csl (a_book\<lparr>csl_issued := Obj [(''date-parts'', Arr [Arr [NaN]])]\<rparr>),
      new_parser\<lparr>cslJson := [a_book\<lparr>csl_issued := Obj [(''date-parts'', Arr [Arr [NaN]])]\<rparr>],
                 random_calls := 1\<rparr>)"
  by code_simp


subsection \<open>Bibliography renderer\<close>


lemma getCslFile_404:
  "xhr r (style_url style_name) = Inr t \<Longrightarrow> startsWith t ''404:'' \<Longrightarrow>
   getCslFile r style_name = Inl (FailedToRetrieveStyle style_name)"
  by (simp add: getCslFile_def)

lemma getLocaleFile_404:
  "xhr r (locale_url lang) = Inr t \<Longrightarrow> startsWith t ''404:'' \<Longrightarrow>
   getLocaleFile r lang = Inl (FailedToRetrieveLocale lang)"
  by (simp add: getLocaleFile_def)

lemma getFormattedCitations_style:
  "getCslFile r style_name = Inl err \<Longrightarrow> getFormattedCitations r items style_name lang fmt = Inl err"
  by (simp add: getFormattedCitations_def split: prod.splits)

lemma getFormattedCitations_locale:
  "getLocaleFile r lang = Inl err \<Longrightarrow> \<exists>err'. getFormattedCitations r items style_name lang fmt = Inl err'"
  by (simp add: getFormattedCitations_def split: prod.splits sum.splits)

lemma getFormattedCitations_engine:
  assumes "getCslFile r style_name = Inr cslFile" and "getLocaleFile r lang = Inr localeFile"
    and "collect_items items (Map.empty, []) = (citations, itemIDs)"
    and "citeproc r localeFile cslFile citations (toLowerCase fmt) itemIDs = Inl err"
  shows "getFormattedCitations r items style_name lang fmt = Inl err"
  using assms by (simp add: getFormattedCitations_def)

lemma getFormattedCitations_join:
  assumes "getCslFile r style_name = Inr cslFile" and "getLocaleFile r lang = Inr localeFile"
    and "collect_items items (Map.empty, []) = (citations, itemIDs)"
    and "citeproc r localeFile cslFile citations (toLowerCase fmt) itemIDs = Inr references"
    and "\<forall>entries. at_index references 1 \<noteq> Inr (Arr entries)"
  shows "\<exists>err'. getFormattedCitations r items style_name lang fmt = Inl err'"
proof (cases "at_index references 1")
  case (Inl err')
  with assms(1-4) show ?thesis by (simp add: getFormattedCitations_def)
next
  case (Inr v)
  with assms(5) have "\<forall>entries. v \<noteq> Arr entries" by simp
  with Inr assms(1-4) show ?thesis
    by (cases v) (simp_all add: getFormattedCitations_def)
qed

lemma toBibliography_null:
  "getFormattedCitations r (cslJson st) (case opt_style options of None \<Rightarrow> ''apa'' | Some s \<Rightarrow> s)
     (case opt_locale options of None \<Rightarrow> ''en-US'' | Some l \<Rightarrow> l)
     (case opt_format options of None \<Rightarrow> ''text'' | Some f \<Rightarrow> f) = Inl err
   \<Longrightarrow> fst (toBibliography r st options) = None"
  by (simp add: toBibliography_def Let_def)

text \<open>
  Claim C6. \<^verbatim>\<open>toBibliography\<close> resolves to \<^verbatim>\<open>null\<close>, never to a bibliography string,
  whenever the request for the style file or for the locale file throws or is answered
  with a body that starts with \<^verbatim>\<open>404:\<close>, whenever the citation processor throws, and
  whenever what the processor returns has no array of entries to join. The style, locale
  and format are those of the options, or their defaults. The function has no other way
  to end: it returns a string or \<^verbatim>\<open>null\<close>.
\<close>

theorem toBibliography_failure_resolves_null:
  assumes "style_name = (case opt_style options of None \<Rightarrow> ''apa'' | Some s \<Rightarrow> s)"
    and "lang = (case opt_locale options of None \<Rightarrow> ''en-US'' | Some l \<Rightarrow> l)"
    and "fmt = (case opt_format options of None \<Rightarrow> ''text'' | Some f \<Rightarrow> f)"
    and "collect_items (cslJson st) (Map.empty, []) = (citations, itemIDs)"
    and "xhr r (style_url style_name) = Inl err
       \<or> (\<exists>t. xhr r (style_url style_name) = Inr t \<and> startsWith t ''404:'')
       \<or> xhr r (locale_url lang) = Inl err
       \<or> (\<exists>t. xhr r (locale_url lang) = Inr t \<and> startsWith t ''404:'')
       \<or> (\<exists>cslFile localeFile.
             getCslFile r style_name = Inr cslFile \<and> getLocaleFile r lang = Inr localeFile
             \<and> (citeproc r localeFile cslFile citations (toLowerCase fmt) itemIDs = Inl err
                \<or> (\<exists>references.
                      citeproc r localeFile cslFile citations (toLowerCase fmt) itemIDs = Inr references
                      \<and> (\<forall>entries. at_index references 1 \<noteq> Inr (Arr entries)))))"
  shows "fst (toBibliography r st options) = None"
proof -
  have "\<exists>err'. getFormattedCitations r (cslJson st) style_name lang fmt = Inl err'"
    using assms(5)
  proof (elim disjE exE conjE)
    assume "xhr r (style_url style_name) = Inl err"
    then have "getCslFile r style_name = Inl err" by (simp add: getCslFile_def)
    from getFormattedCitations_style [OF this] show ?thesis by blast
  next
    fix t assume "xhr r (style_url style_name) = Inr t" "startsWith t ''404:''"
    from getFormattedCitations_style [OF getCslFile_404 [OF this]] show ?thesis by blast
  next
    assume "xhr r (locale_url lang) = Inl err"
    then have "getLocaleFile r lang = Inl err" by (simp add: getLocaleFile_def)
    from getFormattedCitations_locale [OF this] show ?thesis .
  next
    fix t assume "xhr r (locale_url lang) = Inr t" "startsWith t ''404:''"
    from getFormattedCitations_locale [OF getLocaleFile_404 [OF this]] show ?thesis .
  next
    fix cslFile localeFile
    assume "getCslFile r style_name = Inr cslFile" "getLocaleFile r lang = Inr localeFile"
      "citeproc r localeFile cslFile citations (toLowerCase fmt) itemIDs = Inl err"
    from getFormattedCitations_engine [OF this(1,2) assms(4) this(3)] show ?thesis by blast
  next
    fix cslFile localeFile references
    assume "getCslFile r style_name = Inr cslFile" "getLocaleFile r lang = Inr localeFile"
      "citeproc r localeFile cslFile citations (toLowerCase fmt) itemIDs = Inr references"
      "\<forall>entries. at_index references 1 \<noteq> Inr (Arr entries)"
    from getFormattedCitations_join [OF this(1,2) assms(4) this(3,4)] show ?thesis .
  qed
  then obtain err' where "getFormattedCitations r (cslJson st) style_name lang fmt = Inl err'" ..
  then show ?thesis
    unfolding assms(1-3) by (rule toBibliography_null)
qed

theorem toBibliography_failure_resolves_null_witness:
  "fst (toBibliography style_not_found (new_parser\<lparr>cslJson := [a_book]\<rparr>)
          \<lparr>opt_style = Some ''no-such-style'', opt_locale = None, opt_format = Some ''html''\<rparr>) = None"
proof -
  let ?options = "\<lparr>opt_style = Some ''no-such-style'', opt_locale = None, opt_format = Some ''html''\<rparr>"
  let ?st = "new_parser\<lparr>cslJson := [a_book]\<rparr>"
  have s: "''no-such-style'' = (case opt_style ?options of None \<Rightarrow> ''apa'' | Some s \<Rightarrow> s)" by simp
  have l: "''en-US'' = (case opt_locale ?options of None \<Rightarrow> ''en-US'' | Some l \<Rightarrow> l)" by simp
  have f: "''html'' = (case opt_format ?options of None \<Rightarrow> ''text'' | Some f \<Rightarrow> f)" by simp
  have c: "collect_items (cslJson ?st) (Map.empty, [])
             = ([csl_id a_book \<mapsto> a_book], [csl_id a_book])"
    by (simp add: new_parser_def)
  have x: "xhr style_not_found (style_url ''no-such-style'') = Inr ''404: Not Found''"
    by (simp add: style_not_found_def)
  have p: "startsWith ''404: Not Found'' ''404:''"
    by (simp add: startsWith_def)
  from x p have
    "xhr style_not_found (style_url ''no-such-style'') = Inl TypeError
       \<or> (\<exists>t. xhr style_not_found (style_url ''no-such-style'') = Inr t \<and> startsWith t ''404:'')
       \<or> xhr style_not_found (locale_url ''en-US'') = Inl TypeError
       \<or> (\<exists>t. xhr style_not_found (locale_url ''en-US'') = Inr t \<and> startsWith t ''404:'')
       \<or> (\<exists>cslFile localeFile.
             getCslFile style_not_found ''no-such-style'' = Inr cslFile
             \<and> getLocaleFile style_not_found ''en-US'' = Inr localeFile
             \<and> (citeproc style_not_found localeFile cslFile [csl_id a_book \<mapsto> a_book]
                  (toLowerCase ''html'') [csl_id a_book] = Inl TypeError
                \<or> (\<exists>references.
                      citeproc style_not_found localeFile cslFile [csl_id a_book \<mapsto> a_book]
                        (toLowerCase ''html'') [csl_id a_book] = Inr references
                      \<and> (\<forall>entries. at_index references 1 \<noteq> Inr (Arr entries)))))"
    by blast
  from toBibliography_failure_resolves_null [OF s l f c this] show ?thesis .
qed

text \<open>
  Claim C5 says that the renderer returns the reference list and the in-text citation list
  as a pair. \<^verbatim>\<open>toBibliography\<close> returns one string, the joined reference list, and nothing
  computes in-text citations; \<^verbatim>\<open>formatBibliography\<close> takes that string apart as if it were
  the pair. For one entry \<^verbatim>\<open>Doe, J. (2020). A Book.\<close> and in-text output asked for, the
  text it prints has \<^verbatim>\<open>D\<close> as the reference list and \<^verbatim>\<open>o\<close> as the in-text citation.
\<close>

theorem toBibliography_returns_one_string:
  "fst (toBibliography one_entry (new_parser\<lparr>cslJson := [a_book]\<rparr>)
          \<lparr>opt_style = Some ''apa'', opt_locale = Some ''en-US'', opt_format = Some ''text''\<rparr>)
     = Some ''Doe, J. (2020). A Book.''
   \<and> fst (formatBibliography one_entry [a_book]
            \<lparr>fo_style = ''apa'', fo_locale = ''en-US'', fo_format = ''text'', fo_showIntext = True,
             fo_logErrors = False\<rparr>)
     = Inr (Some (RESULT_SUCCESS @ '' '' @ FONT_GREEN @ ''Successfully generated references:''
                  @ FONT_RESET @ [LF]
                  @ [CR] @ FONT_GRAY @ ''Reference list entries:'' @ FONT_RESET @ [LF]
                  @ ''D'' @ [LF]
                  @ [CR] @ FONT_GRAY @ ''In-text citation:'' @ FONT_RESET @ [LF]
                  @ ''o'' @ [LF] @ [LF]))"
  by code_simp



subsection \<open>Configuration\<close>

lemma format_pattern_set:
  "test_full format_pattern v \<longleftrightarrow> v \<in> set [''text'', ''html'', ''rtf'', ''asciidoc'']"
proof -
  have lit: "[] \<in> set (rests (Lit l) v) \<longleftrightarrow> v = l" for l
    by (auto simp: startsWith_def)
  show ?thesis
    unfolding test_full_def format_pattern_def rests.simps(6) set_append Un_iff lit
    by auto
qed

lemma map_of_assign: "map_of (assign config key v) key = Some v"
  by (induction config key v rule: assign.induct) auto

lemma getConfigFile_loads:
  assumes "getConfigFile fs = Inr (config, fs1)"
  shows "config_file fs1 = config_file fs" and "next_write fs1 = next_write fs"
  using assms
  by (auto simp: getConfigFile_def mkdirSync_def
           split: if_splits option.splits sum.splits config_file_state.splits)

lemma getConfigFile_ends:
  assumes "getConfigFile fs = Inl ended"
  shows "exit_code ended = 1" and "config_file (files_after ended) = config_file fs"
    and "stdout ended = []" and "stderr ended \<noteq> []"
  using assms
  by (auto simp: getConfigFile_def mkdirSync_def
           split: if_splits option.splits sum.splits config_file_state.splits)

lemma validKeys_format: "test_full validKeys ''format''"
  by (simp add: test_full_def validKeys_def startsWith_def)

lemma handleConfig_format:
  assumes "getConfigFile fs = Inr (config, fs1)"
  shows "handleConfig fs [node, script, ''config'', ''format'', v] =
           (if startsWith v ''-''
            then Exits \<lparr>exit_code = 1, files_after = fs1, stdout = [], stderr = [ERROR_USAGE_MESSAGE]\<rparr>
            else if v = [] then Exits (retrieveConfig fs1 config ''format'')
            else Exits (updateConfig fs1 config ''format'' v))"
proof -
  have k: "\<not> startsWith ''format'' ''-''" by (simp add: startsWith_def)
  show ?thesis
    using assms validKeys_format k
    by (simp add: handleConfig_def argument_def nonempty_def Let_def)
qed

lemma handleConfig_extra:
  assumes "getConfigFile fs = Inr (config, fs1)" and "x \<noteq> []"
  shows "handleConfig fs ([node, script, ''config'', ''format'', v, x] @ others) =
           Exits \<lparr>exit_code = 1, files_after = fs1, stdout = [], stderr = [ERROR_USAGE_MESSAGE]\<rparr>"
  using assms
  by (simp add: handleConfig_def argument_def nonempty_def Let_def startsWith_def)

lemma formats_plain:
  assumes "v \<in> set [''text'', ''html'', ''rtf'', ''asciidoc'']"
  shows "\<not> startsWith v ''-''" and "v \<noteq> []"
  using assms by (auto simp: startsWith_def)

text \<open>
  Claim C8, as the code has it, for the command line \<^verbatim>\<open>cite config format <value>\<close>.
  \<^verbatim>\<open>handleConfig\<close> loads the configuration first: when that ends the process (the
  directory cannot be made, the file does not parse), the exit code is 1 whatever the
  value is, the file is as it was, and the error stream has the message. Otherwise loading
  leaves the file as it was, and:

  \<^item> a value that is not one of text, html, rtf and asciidoc is never written: the files
    stay as loading left them, and the exit code is 1, except for the empty value, which
    reads the key and exits with 0;
  \<^item> such a value that is neither empty nor starts with a dash gets the message about
    the allowed formats on the error stream, and nothing on the output stream; a value
    that starts with a dash gets the usage message; the empty value is handed to
    \<^verbatim>\<open>retrieveConfig\<close>, which writes nothing;
  \<^item> one of the four values ends the process with exit code 0. When the write goes
    through, the file holds the loaded configuration with \<^verbatim>\<open>format\<close> set to the value, and
    the output stream reports the update. When the file cannot be opened for writing it
    is as it was; when the write fails after the file was opened (and truncated) the
    file no longer parses; in both cases the error stream reports the failure and the
    output stream is empty;
  \<^item> a further non-empty argument after the value ends the process with exit code 1 and
    the usage message, the files as loading left them, whatever the value is.
\<close>

theorem config_format_invocation:
  "(\<forall>ended. getConfigFile fs = Inl ended \<longrightarrow>
      handleConfig fs argv = Exits ended \<and> exit_code ended = 1
      \<and> config_file (files_after ended) = config_file fs
      \<and> stdout ended = [] \<and> stderr ended \<noteq> [])
 \<and> (\<forall>config fs1. getConfigFile fs = Inr (config, fs1) \<longrightarrow>
      config_file fs1 = config_file fs
      \<and> (v \<notin> set [''text'', ''html'', ''rtf'', ''asciidoc''] \<longrightarrow>
           (\<exists>r. handleConfig fs [node, script, ''config'', ''format'', v] = Exits r
                \<and> exit_code r = (if v = [] then 0 else 1) \<and> files_after r = fs1))
      \<and> (v \<notin> set [''text'', ''html'', ''rtf'', ''asciidoc''] \<and> v \<noteq> [] \<and> \<not> startsWith v ''-''
           \<longrightarrow> handleConfig fs [node, script, ''config'', ''format'', v] =
                 Exits \<lparr>exit_code = 1, files_after = fs1, stdout = [],
                        stderr = [invalid_format_message]\<rparr>)
      \<and> (startsWith v ''-'' \<longrightarrow>
           handleConfig fs [node, script, ''config'', ''format'', v] =
             Exits \<lparr>exit_code = 1, files_after = fs1, stdout = [],
                    stderr = [ERROR_USAGE_MESSAGE]\<rparr>)
      \<and> (v = [] \<longrightarrow>
           handleConfig fs [node, script, ''config'', ''format'', v] =
             Exits (retrieveConfig fs1 config ''format'')
           \<and> files_after (retrieveConfig fs1 config ''format'') = fs1
           \<and> exit_code (retrieveConfig fs1 config ''format'') = 0)
      \<and> (v \<in> set [''text'', ''html'', ''rtf'', ''asciidoc''] \<longrightarrow>
           (\<exists>r. handleConfig fs [node, script, ''config'', ''format'', v] = Exits r
                \<and> exit_code r = 0
                \<and> (case next_write fs of
                      Writes \<Rightarrow>
                        files_after r = fs1\<lparr>config_file := Holds (assign config ''format'' v)\<rparr>
                        \<and> map_of (assign config ''format'' v) ''format'' = Some v
                        \<and> stdout r = [updated_message ''format'' v] \<and> stderr r = []
                    | RefusedAtOpen error \<Rightarrow>
                        files_after r = fs1 \<and> stdout r = []
                        \<and> stderr r = [update_failed_message error]
                    | FailsAfterOpen error parse_error \<Rightarrow>
                        files_after r = fs1\<lparr>config_file := Unparsable parse_error\<rparr>
                        \<and> stdout r = [] \<and> stderr r = [update_failed_message error])))
      \<and> (\<forall>x others. x \<noteq> [] \<longrightarrow>
           handleConfig fs ([node, script, ''config'', ''format'', v, x] @ others) =
             Exits \<lparr>exit_code = 1, files_after = fs1, stdout = [],
                    stderr = [ERROR_USAGE_MESSAGE]\<rparr>))"
  (is "?load \<and> ?run")
proof
  show ?load
    using getConfigFile_ends [of fs] by (auto simp: handleConfig_def)
next
  show ?run
  proof (intro allI impI)
    fix config fs1 assume g: "getConfigFile fs = Inr (config, fs1)"
    note h = handleConfig_format [OF g, of node script v]
    have w: "next_write fs1 = next_write fs" by (rule getConfigFile_loads(2) [OF g])
    have a: "config_file fs1 = config_file fs" by (rule getConfigFile_loads(1) [OF g])
    have b: "v \<notin> set [''text'', ''html'', ''rtf'', ''asciidoc''] \<longrightarrow>
           (\<exists>r. handleConfig fs [node, script, ''config'', ''format'', v] = Exits r
                \<and> exit_code r = (if v = [] then 0 else 1) \<and> files_after r = fs1)"
    proof
      assume "v \<notin> set [''text'', ''html'', ''rtf'', ''asciidoc'']"
      then have n: "\<not> test_full format_pattern v"
        by (simp only: format_pattern_set not_False_eq_True)
      show "\<exists>r. handleConfig fs [node, script, ''config'', ''format'', v] = Exits r
                \<and> exit_code r = (if v = [] then 0 else 1) \<and> files_after r = fs1"
      proof (cases "startsWith v ''-''")
        case True
        then have "v \<noteq> []" by (auto simp: startsWith_def)
        with True h show ?thesis by simp
      next
        case False
        show ?thesis
        proof (cases "v = []")
          case True
          with False h show ?thesis
            by (simp add: retrieveConfig_def split: option.splits)
        next
          case nonempty: False
          with False h n show ?thesis by (simp add: updateConfig_def)
        qed
      qed
    qed
    have c: "v \<notin> set [''text'', ''html'', ''rtf'', ''asciidoc''] \<and> v \<noteq> [] \<and> \<not> startsWith v ''-''
           \<longrightarrow> handleConfig fs [node, script, ''config'', ''format'', v] =
                 Exits \<lparr>exit_code = 1, files_after = fs1, stdout = [],
                        stderr = [invalid_format_message]\<rparr>"
    proof (intro impI, elim conjE)
      assume "v \<notin> set [''text'', ''html'', ''rtf'', ''asciidoc'']" "v \<noteq> []" "\<not> startsWith v ''-''"
      moreover from this(1) have "\<not> test_full format_pattern v"
        by (simp only: format_pattern_set not_False_eq_True)
      ultimately show "handleConfig fs [node, script, ''config'', ''format'', v] =
                 Exits \<lparr>exit_code = 1, files_after = fs1, stdout = [],
                        stderr = [invalid_format_message]\<rparr>"
        using h by (simp add: updateConfig_def)
    qed
    have c2: "startsWith v ''-'' \<longrightarrow>
           handleConfig fs [node, script, ''config'', ''format'', v] =
             Exits \<lparr>exit_code = 1, files_after = fs1, stdout = [],
                    stderr = [ERROR_USAGE_MESSAGE]\<rparr>"
      using h by simp
    have c3: "v = [] \<longrightarrow>
           handleConfig fs [node, script, ''config'', ''format'', v] =
             Exits (retrieveConfig fs1 config ''format'')
           \<and> files_after (retrieveConfig fs1 config ''format'') = fs1
           \<and> exit_code (retrieveConfig fs1 config ''format'') = 0"
    proof
      assume "v = []"
      moreover from this have "\<not> startsWith v ''-''" by (simp add: startsWith_def)
      ultimately have "handleConfig fs [node, script, ''config'', ''format'', v] =
             Exits (retrieveConfig fs1 config ''format'')"
        using h by simp
      moreover have "files_after (retrieveConfig fs1 config ''format'') = fs1"
        "exit_code (retrieveConfig fs1 config ''format'') = 0"
        by (simp_all add: retrieveConfig_def split: option.splits)
      ultimately show "handleConfig fs [node, script, ''config'', ''format'', v] =
             Exits (retrieveConfig fs1 config ''format'')
           \<and> files_after (retrieveConfig fs1 config ''format'') = fs1
           \<and> exit_code (retrieveConfig fs1 config ''format'') = 0"
        by simp
    qed
    have d: "v \<in> set [''text'', ''html'', ''rtf'', ''asciidoc''] \<longrightarrow>
           (\<exists>r. handleConfig fs [node, script, ''config'', ''format'', v] = Exits r
                \<and> exit_code r = 0
                \<and> (case next_write fs of
                      Writes \<Rightarrow>
                        files_after r = fs1\<lparr>config_file := Holds (assign config ''format'' v)\<rparr>
                        \<and> map_of (assign config ''format'' v) ''format'' = Some v
                        \<and> stdout r = [updated_message ''format'' v] \<and> stderr r = []
                    | RefusedAtOpen error \<Rightarrow>
                        files_after r = fs1 \<and> stdout r = []
                        \<and> stderr r = [update_failed_message error]
                    | FailsAfterOpen error parse_error \<Rightarrow>
                        files_after r = fs1\<lparr>config_file := Unparsable parse_error\<rparr>
                        \<and> stdout r = [] \<and> stderr r = [update_failed_message error]))"
    proof
      assume m: "v \<in> set [''text'', ''html'', ''rtf'', ''asciidoc'']"
      then have ok: "test_full format_pattern v" by (simp only: format_pattern_set)
      from formats_plain [OF m] h
      have r: "handleConfig fs [node, script, ''config'', ''format'', v]
                 = Exits (updateConfig fs1 config ''format'' v)"
        by simp
      show "\<exists>r. handleConfig fs [node, script, ''config'', ''format'', v] = Exits r
                \<and> exit_code r = 0
                \<and> (case next_write fs of
                      Writes \<Rightarrow>
                        files_after r = fs1\<lparr>config_file := Holds (assign config ''format'' v)\<rparr>
                        \<and> map_of (assign config ''format'' v) ''format'' = Some v
                        \<and> stdout r = [updated_message ''format'' v] \<and> stderr r = []
                    | RefusedAtOpen error \<Rightarrow>
                        files_after r = fs1 \<and> stdout r = []
                        \<and> stderr r = [update_failed_message error]
                    | FailsAfterOpen error parse_error \<Rightarrow>
                        files_after r = fs1\<lparr>config_file := Unparsable parse_error\<rparr>
                        \<and> stdout r = [] \<and> stderr r = [update_failed_message error])"
      proof (cases "next_write fs")
        case Writes
        with w have "next_write fs1 = Writes" by simp
        with ok Writes show ?thesis
          unfolding r by (simp add: updateConfig_def writeFileSync_def Let_def map_of_assign)
      next
        case (RefusedAtOpen error)
        with w have "next_write fs1 = RefusedAtOpen error" by simp
        with ok RefusedAtOpen show ?thesis
          unfolding r by (simp add: updateConfig_def writeFileSync_def Let_def)
      next
        case (FailsAfterOpen error parse_error)
        with w have "next_write fs1 = FailsAfterOpen error parse_error" by simp
        with ok FailsAfterOpen show ?thesis
          unfolding r by (simp add: updateConfig_def writeFileSync_def Let_def)
      qed
    qed
    have e: "\<forall>x others. x \<noteq> [] \<longrightarrow>
           handleConfig fs ([node, script, ''config'', ''format'', v, x] @ others) =
             Exits \<lparr>exit_code = 1, files_after = fs1, stdout = [],
                    stderr = [ERROR_USAGE_MESSAGE]\<rparr>"
      using handleConfig_extra [OF g] by blast
    from a b c c2 c3 d e
    show "config_file fs1 = config_file fs
      \<and> (v \<notin> set [''text'', ''html'', ''rtf'', ''asciidoc''] \<longrightarrow>
           (\<exists>r. handleConfig fs [node, script, ''config'', ''format'', v] = Exits r
                \<and> exit_code r = (if v = [] then 0 else 1) \<and> files_after r = fs1))
      \<and> (v \<notin> set [''text'', ''html'', ''rtf'', ''asciidoc''] \<and> v \<noteq> [] \<and> \<not> startsWith v ''-''
           \<longrightarrow> handleConfig fs [node, script, ''config'', ''format'', v] =
                 Exits \<lparr>exit_code = 1, files_after = fs1, stdout = [],
                        stderr = [invalid_format_message]\<rparr>)
      \<and> (startsWith v ''-'' \<longrightarrow>
           handleConfig fs [node, script, ''config'', ''format'', v] =
             Exits \<lparr>exit_code = 1, files_after = fs1, stdout = [],
                    stderr = [ERROR_USAGE_MESSAGE]\<rparr>)
      \<and> (v = [] \<longrightarrow>
           handleConfig fs [node, script, ''config'', ''format'', v] =
             Exits (retrieveConfig fs1 config ''format'')
           \<and> files_after (retrieveConfig fs1 config ''format'') = fs1
           \<and> exit_code (retrieveConfig fs1 config ''format'') = 0)
      \<and> (v \<in> set [''text'', ''html'', ''rtf'', ''asciidoc''] \<longrightarrow>
           (\<exists>r. handleConfig fs [node, script, ''config'', ''format'', v] = Exits r
                \<and> exit_code r = 0
                \<and> (case next_write fs of
                      Writes \<Rightarrow>
                        files_after r = fs1\<lparr>config_file := Holds (assign config ''format'' v)\<rparr>
                        \<and> map_of (assign config ''format'' v) ''format'' = Some v
                        \<and> stdout r = [updated_message ''format'' v] \<and> stderr r = []
                    | RefusedAtOpen error \<Rightarrow>
                        files_after r = fs1 \<and> stdout r = []
                        \<and> stderr r = [update_failed_message error]
                    | FailsAfterOpen error parse_error \<Rightarrow>
                        files_after r = fs1\<lparr>config_file := Unparsable parse_error\<rparr>
                        \<and> stdout r = [] \<and> stderr r = [update_failed_message error])))
      \<and> (\<forall>x others. x \<noteq> [] \<longrightarrow>
           handleConfig fs ([node, script, ''config'', ''format'', v, x] @ others) =
             Exits \<lparr>exit_code = 1, files_after = fs1, stdout = [],
                    stderr = [ERROR_USAGE_MESSAGE]\<rparr>)"
      by (intro conjI)
  qed
qed


theorem config_format_invocation_witness:
  "handleConfig apa_config [''node'', ''cite'', ''config'', ''format'', ''HTML'']
     = Exits \<lparr>exit_code = 1, files_after = apa_config, stdout = [],
              stderr = [invalid_format_message]\<rparr>
   \<and> (\<exists>r. handleConfig apa_config [''node'', ''cite'', ''config'', ''format'', ''html''] = Exits r
          \<and> exit_code r = 0
          \<and> files_after r
              = apa_config\<lparr>config_file := Holds [(''style'', ''apa''), (''format'', ''html'')]\<rparr>
          \<and> stdout r = [updated_message ''format'' ''html''] \<and> stderr r = [])
   \<and> (\<exists>r. handleConfig read_only_config [''node'', ''cite'', ''config'', ''format'', ''rtf'']
            = Exits r
          \<and> exit_code r = 0 \<and> files_after r = read_only_config
          \<and> stdout r = [] \<and> stderr r = [update_failed_message ''EACCES''])
   \<and> (\<exists>r. handleConfig interrupted_config [''node'', ''cite'', ''config'', ''format'', ''rtf'']
            = Exits r
          \<and> exit_code r = 0
          \<and> files_after r = interrupted_config\<lparr>config_file := Unparsable ''SyntaxError''\<rparr>
          \<and> stdout r = [] \<and> stderr r = [update_failed_message ''ENOSPC''])
   \<and> (\<exists>r. handleConfig broken_config [''node'', ''cite'', ''config'', ''format'', ''html'']
            = Exits r
          \<and> exit_code r = 1 \<and> config_file (files_after r) = Unparsable ''SyntaxError''
          \<and> stdout r = [] \<and> stderr r \<noteq> [])
   \<and> handleConfig apa_config [''node'', ''cite'', ''config'', ''format'', ''-x'']
     = Exits \<lparr>exit_code = 1, files_after = apa_config, stdout = [],
              stderr = [ERROR_USAGE_MESSAGE]\<rparr>
   \<and> handleConfig apa_config [''node'', ''cite'', ''config'', ''format'', ''html'', ''now'']
     = Exits \<lparr>exit_code = 1, files_after = apa_config, stdout = [],
              stderr = [ERROR_USAGE_MESSAGE]\<rparr>
   \<and> (\<exists>r. handleConfig apa_config [''node'', ''cite'', ''config'', ''format'', []] = Exits r
          \<and> exit_code r = 0 \<and> files_after r = apa_config)"
proof -
  have g: "getConfigFile apa_config = Inr ([(''style'', ''apa'')], apa_config)"
    by code_simp
  have g': "getConfigFile read_only_config = Inr ([(''style'', ''apa'')], read_only_config)"
    by code_simp
  have g'': "getConfigFile interrupted_config = Inr ([(''style'', ''apa'')], interrupted_config)"
    by code_simp
  have b: "getConfigFile broken_config
             = Inl \<lparr>exit_code = 1, files_after = broken_config, stdout = [],
                    stderr = [parse_failed_message ''SyntaxError'']\<rparr>"
    by code_simp
  have bad: "''HTML'' \<notin> set [''text'', ''html'', ''rtf'', ''asciidoc''] \<and> ''HTML'' \<noteq> []
             \<and> \<not> startsWith ''HTML'' ''-''"
    by (simp add: startsWith_def)
  have html: "''html'' \<in> set [''text'', ''html'', ''rtf'', ''asciidoc'']" by simp
  have rtf: "''rtf'' \<in> set [''text'', ''html'', ''rtf'', ''asciidoc'']" by simp
  have empty: "[] \<notin> set [''text'', ''html'', ''rtf'', ''asciidoc'']" by simp
  have w: "next_write apa_config = Writes" by (simp add: apa_config_def)
  have w': "next_write read_only_config = RefusedAtOpen ''EACCES''"
    by (simp add: read_only_config_def)
  have w'': "next_write interrupted_config = FailsAfterOpen ''ENOSPC'' ''SyntaxError''"
    by (simp add: interrupted_config_def)
  have a: "assign [(''style'', ''apa'')] ''format'' ''html''
             = [(''style'', ''apa''), (''format'', ''html'')]"
    by simp
  note run = config_format_invocation [THEN conjunct2, rule_format]
  from run [OF g, of "''HTML''" "''node''" "''cite''", THEN conjunct2, THEN conjunct2,
      THEN conjunct1] bad
  have 1: "handleConfig apa_config [''node'', ''cite'', ''config'', ''format'', ''HTML'']
     = Exits \<lparr>exit_code = 1, files_after = apa_config, stdout = [],
              stderr = [invalid_format_message]\<rparr>"
    by blast
  from run [OF g, of "''html''" "''node''" "''cite''", THEN conjunct2, THEN conjunct2,
      THEN conjunct2, THEN conjunct2, THEN conjunct2, THEN conjunct1] html
  have 2: "\<exists>r. handleConfig apa_config [''node'', ''cite'', ''config'', ''format'', ''html''] = Exits r
          \<and> exit_code r = 0
          \<and> files_after r
              = apa_config\<lparr>config_file := Holds [(''style'', ''apa''), (''format'', ''html'')]\<rparr>
          \<and> stdout r = [updated_message ''format'' ''html''] \<and> stderr r = []"
    unfolding w a by auto
  from run [OF g', of "''rtf''" "''node''" "''cite''", THEN conjunct2, THEN conjunct2,
      THEN conjunct2, THEN conjunct2, THEN conjunct2, THEN conjunct1] rtf
  have 3: "\<exists>r. handleConfig read_only_config [''node'', ''cite'', ''config'', ''format'', ''rtf'']
            = Exits r
          \<and> exit_code r = 0 \<and> files_after r = read_only_config
          \<and> stdout r = [] \<and> stderr r = [update_failed_message ''EACCES'']"
    unfolding w' by auto
  from run [OF g'', of "''rtf''" "''node''" "''cite''", THEN conjunct2, THEN conjunct2,
      THEN conjunct2, THEN conjunct2, THEN conjunct2, THEN conjunct1] rtf
  have 4: "\<exists>r. handleConfig interrupted_config [''node'', ''cite'', ''config'', ''format'', ''rtf'']
            = Exits r
          \<and> exit_code r = 0
          \<and> files_after r = interrupted_config\<lparr>config_file := Unparsable ''SyntaxError''\<rparr>
          \<and> stdout r = [] \<and> stderr r = [update_failed_message ''ENOSPC'']"
    unfolding w'' by auto
  from config_format_invocation [where fs = broken_config
      and argv = "[''node'', ''cite'', ''config'', ''format'', ''html'']", THEN conjunct1] b
  have 5: "\<exists>r. handleConfig broken_config [''node'', ''cite'', ''config'', ''format'', ''html'']
            = Exits r
          \<and> exit_code r = 1 \<and> config_file (files_after r) = Unparsable ''SyntaxError''
          \<and> stdout r = [] \<and> stderr r \<noteq> []"
    by (auto simp: broken_config_def)
  have dash: "startsWith ''-x'' ''-''" by (simp add: startsWith_def)
  from run [OF g, of "''-x''" "''node''" "''cite''", THEN conjunct2, THEN conjunct2,
      THEN conjunct2, THEN conjunct1] dash
  have 50: "handleConfig apa_config [''node'', ''cite'', ''config'', ''format'', ''-x'']
     = Exits \<lparr>exit_code = 1, files_after = apa_config, stdout = [],
              stderr = [ERROR_USAGE_MESSAGE]\<rparr>"
    by blast
  from run [OF g, of "''html''" "''node''" "''cite''", THEN conjunct2, THEN conjunct2,
      THEN conjunct2, THEN conjunct2, THEN conjunct2, THEN conjunct2, rule_format,
      of "''now''" "[]"]
  have 6: "handleConfig apa_config [''node'', ''cite'', ''config'', ''format'', ''html'', ''now'']
     = Exits \<lparr>exit_code = 1, files_after = apa_config, stdout = [],
              stderr = [ERROR_USAGE_MESSAGE]\<rparr>"
    by simp
  from run [OF g, of "[]" "''node''" "''cite''", THEN conjunct2, THEN conjunct1] empty
  have 7: "\<exists>r. handleConfig apa_config [''node'', ''cite'', ''config'', ''format'', []] = Exits r
          \<and> exit_code r = 0 \<and> files_after r = apa_config"
    by auto
  from 1 2 3 4 5 50 6 7 show ?thesis by (intro conjI)
qed


text \<open>
  Claim C8 as stated fails in four ways. With a file that cannot be opened for writing,
  the allowed value \<^verbatim>\<open>html\<close> is not written although the exit code is 0. With a file
  that does not parse, the allowed value \<^verbatim>\<open>html\<close> ends in exit code 1. The empty value,
  which is outside the set, ends in exit code 0. And the allowed value \<^verbatim>\<open>html\<close> followed
  by a further argument ends in exit code 1.
\<close>

theorem config_format_counterexample:
  "handleConfig read_only_config [''node'', ''cite'', ''config'', ''format'', ''html'']
     = Exits \<lparr>exit_code = 0, files_after = read_only_config, stdout = [],
              stderr = [update_failed_message ''EACCES'']\<rparr>
   \<and> config_file read_only_config = Holds [(''style'', ''apa'')]
   \<and> handleConfig broken_config [''node'', ''cite'', ''config'', ''format'', ''html'']
     = Exits \<lparr>exit_code = 1, files_after = broken_config, stdout = [],
              stderr = [parse_failed_message ''SyntaxError'']\<rparr>
   \<and> handleConfig apa_config [''node'', ''cite'', ''config'', ''format'', '''']
     = Exits \<lparr>exit_code = 0, files_after = apa_config, stdout = [],
              stderr = [FONT_RED @ ''Key \"format\" not found.'' @ FONT_RESET @ [LF, LF]]\<rparr>
   \<and> handleConfig apa_config [''node'', ''cite'', ''config'', ''format'', ''html'', ''now'']
     = Exits \<lparr>exit_code = 1, files_after = apa_config, stdout = [],
              stderr = [ERROR_USAGE_MESSAGE]\<rparr>"
  by code_simp


end
